theory Spec2Isabelle
  imports Complex_Main "HOL-Library.Word"
begin

chapter \<open>The Camb.ai node: request client, task poller, WAV builder and orchestrators\<close>

text \<open>
  A shallow embedding of the TypeScript sources of the node: \<open>generateWavHeader\<close>,
  \<open>cambAiApiRequest\<close> and \<open>pollForResult\<close> of \<open>GenericFunctions\<close>, and \<open>execute\<close> of the node
  class with its nine operations. Two revisions of the sources are present, one with the
  synthesize operation only; where they differ, the older one carries the suffix \<open>_v1\<close>.

  Conventions of the embedding:
  \<^item> a thrown value is the left summand of a result, so every \<open>throw\<close>, and every runtime
    error of an expression the source evaluates, is a branch of the model;
  \<^item> a function that talks to the remote service takes the world before and returns the
    world after; the world records every HTTP call and every sleep, and decides the outcome
    of each call;
  \<^item> numbers are exact integers, and exact rationals where the source divides; strings are
    ASCII, so that the length of a string is its number of characters;
  \<^item> node parameters have the type the source casts them to, and reading one does not fail;
    \<open>prepareBinaryData\<close> stores what it is given;
  \<^item> \<open>pollForResult\<close> loops without bound in the source; the model bounds the number of
    passes by a fuel argument and returns \<open>None\<close> when it is spent.
\<close>

section \<open>JavaScript values, errors and byte buffers\<close>

text \<open>
  The integration layer is TypeScript running on Node. Its numbers are modelled as exact
  integers (\<open>int\<close>) and, where the source divides, as exact rationals (\<open>rat\<close>); its strings
  as \<open>string\<close>; a \<open>Buffer\<close> as a list of bytes.
\<close>

type_synonym buffer = "8 word list"

text \<open>
  Values that are thrown. \<open>HttpFailure\<close> is what the host's HTTP helpers reject with (the
  source reads it as \<open>{ statusCode?: number; message?: string }\<close>); \<open>NodeApiError\<close> and
  \<open>NodeOperationError\<close> are the constructors imported from \<open>n8n-workflow\<close>, applied to the
  arguments the source passes (the wrapped error and the optional \<open>message\<close> override; the
  message and the \<open>itemIndex\<close>); \<open>Error\<close> is the built-in constructor; \<open>RangeError\<close> and
  \<open>TypeError\<close> are raised by the runtime.
\<close>

datatype js_error =
    HttpFailure "int option" "string option"
  | NodeApiError js_error "string option"
  | NodeOperationError string nat
  | Error string
  | RangeError string
  | TypeError string

definition bindE :: "'e + 'a \<Rightarrow> ('a \<Rightarrow> 'e + 'b) \<Rightarrow> 'e + 'b" where
  "bindE r f = (case r of Inl e \<Rightarrow> Inl e | Inr x \<Rightarrow> f x)"

subsection \<open>Buffer primitives\<close>

text \<open>\<open>Buffer.alloc(n)\<close>: \<open>n\<close> zero bytes.\<close>

definition alloc :: "nat \<Rightarrow> buffer" where
  "alloc n = replicate n 0"

definition put_bytes :: "buffer \<Rightarrow> nat \<Rightarrow> buffer \<Rightarrow> buffer" where
  "put_bytes bs off buf = take off buf @ bs @ drop (off + length bs) buf"

text \<open>
  \<open>buf.write(string, offset)\<close> for ASCII text: the bytes of the string are stored from
  \<open>offset\<close> on, cut at the end of the buffer; an offset beyond the buffer is a range error.
\<close>

definition bufWrite :: "string \<Rightarrow> nat \<Rightarrow> buffer \<Rightarrow> js_error + buffer" where
  "bufWrite s off buf =
     (if length buf < off then Inl (RangeError ''ERR_OUT_OF_RANGE'')
      else Inr (put_bytes (take (length buf - off) (map of_char s)) off buf))"

text \<open>
  The byte loop of Node's \<open>writeUInt16LE\<close> and \<open>writeUInt32LE\<close>: store the low byte, shift
  right by eight, repeat.
\<close>

fun le_bytes :: "nat \<Rightarrow> int \<Rightarrow> buffer" where
  "le_bytes 0 v = []"
| "le_bytes (Suc n) v = word_of_int v # le_bytes n (v div 256)"

text \<open>
  \<open>buf.writeUInt16LE(value, offset)\<close> is \<open>writeUIntLE 2\<close>, \<open>buf.writeUInt32LE(value, offset)\<close>
  is \<open>writeUIntLE 4\<close>. Node first checks the value against the range of the field and
  throws \<open>ERR_OUT_OF_RANGE\<close>, then checks the offset against the buffer, then stores the
  integer part of the value.
\<close>

definition writeUIntLE :: "nat \<Rightarrow> rat \<Rightarrow> nat \<Rightarrow> buffer \<Rightarrow> js_error + buffer" where
  "writeUIntLE n v off buf =
     (if v > 2 ^ (8 * n) - 1 \<or> v < 0 then Inl (RangeError ''ERR_OUT_OF_RANGE'')
      else if length buf < off + n then Inl (RangeError ''ERR_BUFFER_OUT_OF_BOUNDS'')
      else Inr (put_bytes (le_bytes n \<lfloor>v\<rfloor>) off buf))"

abbreviation writeUInt16LE :: "rat \<Rightarrow> nat \<Rightarrow> buffer \<Rightarrow> js_error + buffer" where
  "writeUInt16LE \<equiv> writeUIntLE 2"

abbreviation writeUInt32LE :: "rat \<Rightarrow> nat \<Rightarrow> buffer \<Rightarrow> js_error + buffer" where
  "writeUInt32LE \<equiv> writeUIntLE 4"

text \<open>Reading a buffer back: an unsigned little-endian field and an ASCII tag.\<close>

fun le_value :: "buffer \<Rightarrow> nat" where
  "le_value [] = 0"
| "le_value (b # bs) = unat b + 256 * le_value bs"

definition readUIntLE :: "buffer \<Rightarrow> nat \<Rightarrow> nat \<Rightarrow> nat" where
  "readUIntLE buf off n = le_value (take n (drop off buf))"

definition ascii_at :: "buffer \<Rightarrow> nat \<Rightarrow> nat \<Rightarrow> string" where
  "ascii_at buf off n = map (\<lambda>b. char_of (unat b)) (take n (drop off buf))"

section \<open>The WAV container builder\<close>

text \<open>
  \<open>generateWavHeader(dataLength, sampleRate, numChannels, bitsPerSample)\<close>. The three
  derived quantities are JavaScript numbers: \<open>bitsPerSample / 8\<close> is a true division.
\<close>

definition generateWavHeader :: "int \<Rightarrow> int \<Rightarrow> int \<Rightarrow> int \<Rightarrow> js_error + buffer" where
  "generateWavHeader dataLength sampleRate numChannels bitsPerSample =
     (let byteRate = of_int sampleRate * of_int numChannels * (of_int bitsPerSample / 8);
          blockAlign = of_int numChannels * (of_int bitsPerSample / 8);
          fileSize = 36 + of_int dataLength;
          header = alloc 44
      in bindE (bufWrite ''RIFF'' 0 header) (\<lambda>header.
         bindE (writeUInt32LE fileSize 4 header) (\<lambda>header.
         bindE (bufWrite ''WAVE'' 8 header) (\<lambda>header.
         bindE (bufWrite ''fmt '' 12 header) (\<lambda>header.
         bindE (writeUInt32LE 16 16 header) (\<lambda>header.
         bindE (writeUInt16LE 1 20 header) (\<lambda>header.
         bindE (writeUInt16LE (of_int numChannels) 22 header) (\<lambda>header.
         bindE (writeUInt32LE (of_int sampleRate) 24 header) (\<lambda>header.
         bindE (writeUInt32LE byteRate 28 header) (\<lambda>header.
         bindE (writeUInt16LE blockAlign 32 header) (\<lambda>header.
         bindE (writeUInt16LE (of_int bitsPerSample) 34 header) (\<lambda>header.
         bindE (bufWrite ''data'' 36 header) (\<lambda>header.
         bindE (writeUInt32LE (of_int dataLength) 40 header) (\<lambda>header.
         Inr header))))))))))))))"

text \<open>The thirteen fields of the header, in order, as the bytes they are stored as.\<close>

definition wav_layout :: "int \<Rightarrow> int \<Rightarrow> int \<Rightarrow> int \<Rightarrow> buffer" where
  "wav_layout dataLength sampleRate numChannels bitsPerSample =
     map of_char ''RIFF'' @ le_bytes 4 (36 + dataLength) @ map of_char ''WAVE'' @
     map of_char ''fmt '' @ le_bytes 4 16 @ le_bytes 2 1 @ le_bytes 2 numChannels @
     le_bytes 4 sampleRate @ le_bytes 4 (sampleRate * numChannels * bitsPerSample div 8) @
     le_bytes 2 (numChannels * bitsPerSample div 8) @ le_bytes 2 bitsPerSample @
     map of_char ''data'' @ le_bytes 4 dataLength"

section \<open>Dynamically typed values\<close>

text \<open>
  What a JSON response, a request option or a node parameter can hold. \<open>JBuf\<close> is a
  \<open>Buffer\<close>, \<open>JForm\<close> a \<open>FormData\<close> instance with the fields appended to it. An object is an
  association list in insertion order.
\<close>

datatype jsval =
    JUndefined
  | JNull
  | JBool bool
  | JNum int
  | JStr string
  | JArr "jsval list"
  | JObj "(string \<times> jsval) list"
  | JBuf buffer
  | JForm "(string \<times> jsval) list"

type_synonym obj = "(string \<times> jsval) list"

text \<open>Truthiness, as \<open>||\<close> and \<open>if (x)\<close> test it.\<close>

fun truthy :: "jsval \<Rightarrow> bool" where
  "truthy JUndefined = False"
| "truthy JNull = False"
| "truthy (JBool b) = b"
| "truthy (JNum n) = (n \<noteq> 0)"
| "truthy (JStr s) = (s \<noteq> [])"
| "truthy _ = True"

definition js_or :: "jsval \<Rightarrow> jsval \<Rightarrow> jsval" where
  "js_or a b = (if truthy a then a else b)"

fun string_of_nat :: "nat \<Rightarrow> string" where
  "string_of_nat n =
     (if n < 10 then [''0123456789'' ! n]
      else string_of_nat (n div 10) @ [''0123456789'' ! (n mod 10)])"

definition string_of_int :: "int \<Rightarrow> string" where
  "string_of_int i =
     (if i < 0 then CHR ''-'' # string_of_nat (nat (- i)) else string_of_nat (nat i))"

fun join :: "string \<Rightarrow> string list \<Rightarrow> string" where
  "join sep [] = []"
| "join sep [s] = s"
| "join sep (s # t # ss) = s @ sep @ join sep (t # ss)"

text \<open>
  String conversion, as a template literal, \<open>String(x)\<close> and \<open>x.toString()\<close> perform it: an
  array joins its elements with commas, \<open>null\<close> and \<open>undefined\<close> elements giving the empty
  string.
\<close>

fun ToString :: "jsval \<Rightarrow> string" where
  "ToString JUndefined = ''undefined''"
| "ToString JNull = ''null''"
| "ToString (JBool b) = (if b then ''true'' else ''false'')"
| "ToString (JNum n) = string_of_int n"
| "ToString (JStr s) = s"
| "ToString (JArr xs) =
     join '','' (map (\<lambda>x. if x = JUndefined \<or> x = JNull then [] else ToString x) xs)"
| "ToString (JObj kvs) = ''[object Object]''"
| "ToString (JBuf b) = map (\<lambda>x. char_of (unat x)) b"
| "ToString (JForm fs) = ''[object FormData]''"

text \<open>\<open>toUpperCase\<close> on the letters of ASCII; every other character is kept.\<close>

definition upper_char :: "char \<Rightarrow> char" where
  "upper_char c =
     (case map_of (zip ''abcdefghijklmnopqrstuvwxyz'' ''ABCDEFGHIJKLMNOPQRSTUVWXYZ'') c of
        Some u \<Rightarrow> u
      | None \<Rightarrow> c)"

definition toUpperCase :: "string \<Rightarrow> string" where
  "toUpperCase s = map upper_char s"

subsection \<open>Objects\<close>

definition obj_get :: "obj \<Rightarrow> string \<Rightarrow> jsval" where
  "obj_get ob k = (case map_of ob k of Some v \<Rightarrow> v | None \<Rightarrow> JUndefined)"

fun obj_set :: "string \<Rightarrow> jsval \<Rightarrow> obj \<Rightarrow> obj" where
  "obj_set k v [] = [(k, v)]"
| "obj_set k v (p # ps) = (if fst p = k then (k, v) # ps else p # obj_set k v ps)"

definition obj_delete :: "string \<Rightarrow> obj \<Rightarrow> obj" where
  "obj_delete k ob = filter (\<lambda>p. fst p \<noteq> k) ob"

text \<open>\<open>Object.assign(target, source)\<close>.\<close>

definition obj_assign :: "obj \<Rightarrow> obj \<Rightarrow> obj" where
  "obj_assign target source = fold (\<lambda>p. obj_set (fst p) (snd p)) source target"

text \<open>
  Reading a property off a value: \<open>undefined\<close> and \<open>null\<close> throw a \<open>TypeError\<close>; a value that
  is no object has none of the properties this program reads.
\<close>

fun getProp :: "jsval \<Rightarrow> string \<Rightarrow> js_error + jsval" where
  "getProp (JObj kvs) k = Inr (obj_get kvs k)"
| "getProp JUndefined k = Inl (TypeError ''Cannot read properties of undefined'')"
| "getProp JNull k = Inl (TypeError ''Cannot read properties of null'')"
| "getProp _ k = Inr JUndefined"

text \<open>\<open>xs[i]\<close> for a numeric index.\<close>

fun getIndex :: "jsval \<Rightarrow> nat \<Rightarrow> js_error + jsval" where
  "getIndex (JArr xs) i = Inr (if i < length xs then xs ! i else JUndefined)"
| "getIndex (JStr s) i = Inr (if i < length s then JStr [s ! i] else JUndefined)"
| "getIndex (JBuf b) i = Inr (if i < length b then JNum (uint (b ! i)) else JUndefined)"
| "getIndex (JObj kvs) i = Inr (obj_get kvs (string_of_nat i))"
| "getIndex JUndefined i = Inl (TypeError ''Cannot read properties of undefined'')"
| "getIndex JNull i = Inl (TypeError ''Cannot read properties of null'')"
| "getIndex _ i = Inr JUndefined"

fun isArray :: "jsval \<Rightarrow> bool" where
  "isArray (JArr xs) = True"
| "isArray _ = False"

fun isFormData :: "jsval \<Rightarrow> bool" where
  "isFormData (JForm fs) = True"
| "isFormData _ = False"

text \<open>
  \<open>Buffer.from(x)\<close>: a copy of a buffer, the bytes of an ASCII string, the low bytes of an
  array of numbers; anything else is a \<open>TypeError\<close>.
\<close>

fun bufferFrom :: "jsval \<Rightarrow> js_error + buffer" where
  "bufferFrom (JBuf b) = Inr b"
| "bufferFrom (JStr s) = Inr (map of_char s)"
| "bufferFrom (JArr xs) = Inr (map (\<lambda>x. case x of JNum n \<Rightarrow> word_of_int n | _ \<Rightarrow> 0) xs)"
| "bufferFrom _ = Inl (TypeError ''ERR_INVALID_ARG_TYPE'')"

section \<open>What lies outside the repository\<close>

text \<open>
  The classes \<open>NodeApiError\<close> and \<open>NodeOperationError\<close> come from \<open>n8n-workflow\<close>, and
  \<open>JSON.parse\<close> from the runtime; none of them is part of the repository. What the program
  observes of them is a parameter: the \<open>message\<close> an error of either class exposes (given the
  arguments it was built with), and the result of parsing a string (\<open>None\<close> for a syntax
  error).
\<close>

record env =
  apiErrorMessage :: "js_error \<Rightarrow> string option \<Rightarrow> jsval"
  operationErrorMessage :: "string \<Rightarrow> nat \<Rightarrow> jsval"
  JSON_parse :: "string \<Rightarrow> jsval option"

text \<open>
  \<open>err.statusCode\<close> and \<open>err.message\<close> of a caught value. A \<open>NodeApiError\<close> keeps the HTTP
  status of the error it wraps under the name \<open>httpCode\<close>; it has no property \<open>statusCode\<close>,
  and neither have the other error classes, so that reading \<open>statusCode\<close> from any of them
  gives \<open>undefined\<close>.
\<close>

fun statusCode :: "env \<Rightarrow> js_error \<Rightarrow> int option" where
  "statusCode lib (HttpFailure c m) = c"
| "statusCode lib _ = None"

fun message :: "env \<Rightarrow> js_error \<Rightarrow> jsval" where
  "message lib (HttpFailure c m) = (case m of None \<Rightarrow> JUndefined | Some s \<Rightarrow> JStr s)"
| "message lib (NodeApiError e m) = apiErrorMessage lib e m"
| "message lib (NodeOperationError s i) = operationErrorMessage lib s i"
| "message lib (Error s) = JStr s"
| "message lib (RangeError s) = JStr s"
| "message lib (TypeError s) = JStr s"

text \<open>
  The remote side and the clock. \<open>server w n c\<close> is the outcome of the \<open>n\<close>-th HTTP call of the
  run when that call is \<open>c\<close>; \<open>calls\<close> logs the calls made, \<open>sleeps\<close> the intervals waited.
  The two helpers of the host are \<open>this.helpers.httpRequest(options)\<close> and
  \<open>this.helpers.httpRequestWithAuthentication.call(this, credential, options)\<close>.
\<close>

datatype http_call =
    HttpRequest obj
  | HttpRequestWithAuthentication string obj

record world =
  server :: "nat \<Rightarrow> http_call \<Rightarrow> js_error + jsval"
  calls :: "http_call list"
  sleeps :: "int list"

definition perform :: "world \<Rightarrow> http_call \<Rightarrow> (js_error + jsval) \<times> world" where
  "perform w c = (server w (length (calls w)) c, w\<lparr>calls := calls w @ [c]\<rparr>)"

text \<open>\<open>await new Promise((resolve) => setTimeout(resolve, interval))\<close>.\<close>

definition setTimeout :: "int \<Rightarrow> world \<Rightarrow> world" where
  "setTimeout interval w = w\<lparr>sleeps := sleeps w @ [interval]\<rparr>"

fun requestOptions_of :: "http_call \<Rightarrow> obj" where
  "requestOptions_of (HttpRequest ro) = ro"
| "requestOptions_of (HttpRequestWithAuthentication cred ro) = ro"

section \<open>The HTTP request client\<close>

definition BASE_URL :: string where
  "BASE_URL = ''https://client.camb.ai/apis''"

text \<open>The \<open>catch\<close> block of \<open>cambAiApiRequest\<close>, the same in both revisions of the file.\<close>

definition classify :: "env \<Rightarrow> js_error \<Rightarrow> js_error" where
  "classify lib error =
     (if statusCode lib error = Some 401 then
        NodeApiError error (Some ''Invalid API key. Please check your Camb.ai credentials.'')
      else if statusCode lib error = Some 429 then
        NodeApiError error (Some ''Rate limit exceeded. Please wait before making more requests.'')
      else if statusCode lib error = Some 400 then
        NodeApiError error
          (Some (''Bad request: '' @
                 ToString (js_or (message lib error) (JStr ''Invalid parameters''))))
      else NodeApiError error None)"

text \<open>
  \<open>cambAiApiRequest\<close> of the revision that has the task poller, in two parts. The first
  part is everything before the \<open>try\<close>, together with the choice of the helper inside it:
  the call that is about to be made.
\<close>

definition buildRequest :: "string \<Rightarrow> jsval \<Rightarrow> obj \<Rightarrow> obj \<Rightarrow> obj \<Rightarrow> http_call" where
  "buildRequest method endpoint body qs options =
     (let baseURL = (if obj_get options ''baseURL'' \<noteq> JUndefined then obj_get options ''baseURL''
                     else JStr BASE_URL);
          url = (if baseURL = JStr [] then endpoint
                 else JStr (ToString baseURL @ ToString endpoint));
          options = obj_delete ''baseURL'' options;
          requestOptions = [(''method'', JStr method), (''url'', url), (''json'', JBool True)];
          requestOptions = (if body \<noteq> [] then obj_set ''body'' (JObj body) requestOptions
                            else requestOptions);
          requestOptions = (if qs \<noteq> [] then obj_set ''qs'' (JObj qs) requestOptions
                            else requestOptions);
          formData = obj_get options ''formData'';
          restOptions = obj_delete ''formData'' options;
          requestOptions = obj_assign requestOptions restOptions;
          requestOptions = (if truthy formData \<and> isFormData formData
                            then obj_set ''body'' formData
                                   (obj_set ''json'' (JBool False)
                                      (obj_delete ''body'' requestOptions))
                            else requestOptions)
      in if baseURL = JStr [] then HttpRequest requestOptions
         else HttpRequestWithAuthentication ''cambAiApi'' requestOptions)"

text \<open>The second part is the \<open>try\<close> with its \<open>catch\<close>: the call, made once.\<close>

definition cambAiApiRequest ::
  "env \<Rightarrow> world \<Rightarrow> string \<Rightarrow> jsval \<Rightarrow> obj \<Rightarrow> obj \<Rightarrow> obj \<Rightarrow> (js_error + jsval) \<times> world" where
  "cambAiApiRequest lib w method endpoint body qs options =
     (case perform w (buildRequest method endpoint body qs options) of
        (Inr response, w') \<Rightarrow> (Inr response, w')
      | (Inl error, w') \<Rightarrow> (Inl (classify lib error), w'))"

text \<open>\<open>cambAiApiRequest\<close> of the synthesize-only revision (\<open>GenericFunctions.ts\<close>).\<close>

definition buildRequest_v1 :: "string \<Rightarrow> jsval \<Rightarrow> obj \<Rightarrow> obj \<Rightarrow> obj \<Rightarrow> http_call" where
  "buildRequest_v1 method endpoint body qs options =
     (let requestOptions = [(''method'', JStr method),
                            (''url'', JStr (BASE_URL @ ToString endpoint)),
                            (''json'', JBool True)];
          requestOptions = (if body \<noteq> [] then obj_set ''body'' (JObj body) requestOptions
                            else requestOptions);
          requestOptions = (if qs \<noteq> [] then obj_set ''qs'' (JObj qs) requestOptions
                            else requestOptions);
          requestOptions = obj_assign requestOptions options
      in HttpRequestWithAuthentication ''cambAiApi'' requestOptions)"

definition cambAiApiRequest_v1 ::
  "env \<Rightarrow> world \<Rightarrow> string \<Rightarrow> jsval \<Rightarrow> obj \<Rightarrow> obj \<Rightarrow> obj \<Rightarrow> (js_error + jsval) \<times> world" where
  "cambAiApiRequest_v1 lib w method endpoint body qs options =
     (case perform w (buildRequest_v1 method endpoint body qs options) of
        (Inr response, w') \<Rightarrow> (Inr response, w')
      | (Inl error, w') \<Rightarrow> (Inl (classify lib error), w'))"

section \<open>The task poller\<close>

text \<open>
  One pass through the \<open>try\<close> block of \<open>pollForResult\<close>: the status request, the dispatch on
  the upper-cased status and, for a status that is not terminal, the sleep.
\<close>

datatype 'a attempt = Finished 'a | KeepPolling

text \<open>\<open>result.message || result.error || 'Unknown error'\<close>, inside the template literal.\<close>

definition failureReason :: "jsval \<Rightarrow> js_error + string" where
  "failureReason result =
     bindE (getProp result ''message'')
       (\<lambda>msg. if truthy msg then Inr (ToString msg)
              else bindE (getProp result ''error'')
                     (\<lambda>err. Inr (ToString (js_or err (JStr ''Unknown error'')))))"

definition poll_try :: "env \<Rightarrow> world \<Rightarrow> jsval \<Rightarrow> int \<Rightarrow> (js_error + jsval attempt) \<times> world" where
  "poll_try lib w endpoint interval =
     (case cambAiApiRequest lib w ''GET'' endpoint [] [] [] of
        (Inl error, w') \<Rightarrow> (Inl error, w')
      | (Inr result, w') \<Rightarrow>
          (case getProp result ''status'' of
             Inl error \<Rightarrow> (Inl error, w')
           | Inr st \<Rightarrow>
               (let status = toUpperCase (ToString (js_or st (JStr [])))
                in if status = ''SUCCESS'' then (Inr (Finished result), w')
                   else if status = ''ERROR'' \<or> status = ''FAILED'' then
                     (case failureReason result of
                        Inl error \<Rightarrow> (Inl error, w')
                      | Inr reason \<Rightarrow> (Inl (Error (''Task failed: '' @ reason)), w'))
                   else if status = ''TIMEOUT'' then
                     (Inl (Error ''Task timed out on the server. Try again or use smaller input.''),
                      w')
                   else if status = ''PAYMENT_REQUIRED'' then
                     (Inl (Error
                        ''Insufficient credits. Please check your Camb.ai account balance.''),
                      w')
                   else (Inr KeepPolling, setTimeout interval w'))))"

text \<open>
  The loop \<open>while (true)\<close> with its \<open>catch\<close>: an error whose \<open>statusCode\<close> is 404 is followed
  by a sleep and another pass, any other error is thrown on. The loop has no bound in the
  source; \<open>fuel\<close> bounds the number of passes, and \<open>None\<close> is a loop still polling when the
  fuel is spent.
\<close>

fun pollForResult ::
  "env \<Rightarrow> nat \<Rightarrow> world \<Rightarrow> jsval \<Rightarrow> int \<Rightarrow> (js_error + jsval) option \<times> world" where
  "pollForResult lib 0 w endpoint interval = (None, w)"
| "pollForResult lib (Suc fuel) w endpoint interval =
     (case poll_try lib w endpoint interval of
        (Inr (Finished result), w') \<Rightarrow> (Some (Inr result), w')
      | (Inr KeepPolling, w') \<Rightarrow> pollForResult lib fuel w' endpoint interval
      | (Inl error, w') \<Rightarrow>
          (if statusCode lib error = Some 404
           then pollForResult lib fuel (setTimeout interval w') endpoint interval
           else (Some (Inl error), w')))"

section \<open>The node: host interface and output records\<close>

text \<open>
  \<open>IBinaryData\<close>, as far as the program touches it: what \<open>prepareBinaryData(buffer, fileName,
  mimeType)\<close> is given, and what \<open>assertBinaryData\<close> hands back.
\<close>

record binary_data =
  data :: buffer
  fileName :: jsval
  mimeType :: jsval

definition prepareBinaryData :: "buffer \<Rightarrow> jsval \<Rightarrow> jsval \<Rightarrow> binary_data" where
  "prepareBinaryData buf name mime = \<lparr>data = buf, fileName = name, mimeType = mime\<rparr>"

text \<open>
  \<open>INodeExecutionData\<close>: the \<open>json\<close> payload, the optional \<open>binary\<close> properties and the index
  of the input item the record belongs to (\<open>pairedItem: { item: i }\<close>).
\<close>

record node_output =
  json :: jsval
  binary :: "(string \<times> binary_data) list option"
  pairedItem :: nat

text \<open>
  \<open>this: IExecuteFunctions\<close>. A node parameter is read at the type the source casts it to
  (\<open>getNodeParameter(name, i) as string\<close>, \<open>as number\<close>, \<open>as IDataObject\<close>).
\<close>

record host =
  numItems :: nat
  stringParameter :: "string \<Rightarrow> nat \<Rightarrow> string"
  numberParameter :: "string \<Rightarrow> nat \<Rightarrow> int"
  objectParameter :: "string \<Rightarrow> nat \<Rightarrow> obj"
  continueOnFail :: bool
  assertBinaryData :: "nat \<Rightarrow> string \<Rightarrow> js_error + binary_data"
  getBinaryDataBuffer :: "nat \<Rightarrow> string \<Rightarrow> js_error + buffer"

text \<open>
  Sequencing. An outcome is a value or a thrown error, with the world after it; \<open>None\<close> is a
  poller that ran out of fuel.
\<close>

type_synonym 'a outcome = "(js_error + 'a) option \<times> world"

definition andThen :: "'a outcome \<Rightarrow> ('a \<Rightarrow> world \<Rightarrow> 'b outcome) \<Rightarrow> 'b outcome" where
  "andThen r f =
     (case r of
        (Some (Inr x), w) \<Rightarrow> f x w
      | (Some (Inl e), w) \<Rightarrow> (Some (Inl e), w)
      | (None, w) \<Rightarrow> (None, w))"

definition await :: "(js_error + 'a) \<times> world \<Rightarrow> 'a outcome" where
  "await r = (Some (fst r), snd r)"

definition pureE :: "js_error + 'a \<Rightarrow> world \<Rightarrow> 'a outcome" where
  "pureE r w = (Some r, w)"

definition MODEL_SAMPLE_RATES :: "(string \<times> int) list" where
  "MODEL_SAMPLE_RATES = [(''mars-flash'', 22050), (''mars-pro'', 48000), (''mars-instruct'', 22050)]"

definition mimeTypes :: "(string \<times> string) list" where
  "mimeTypes = [(''wav'', ''audio/wav''), (''flac'', ''audio/flac''), (''adts'', ''audio/aac''),
                (''pcm_s16le'', ''audio/wav'')]"

definition extensions :: "(string \<times> string) list" where
  "extensions = [(''wav'', ''wav''), (''flac'', ''flac''), (''adts'', ''aac''),
                 (''pcm_s16le'', ''wav'')]"

text \<open>\<open>table[key] || fallback\<close> for a table without falsy entries.\<close>

definition lookup_or :: "(string \<times> 'a) list \<Rightarrow> string \<Rightarrow> 'a \<Rightarrow> 'a" where
  "lookup_or table k fallback = (case map_of table k of Some v \<Rightarrow> v | None \<Rightarrow> fallback)"

text \<open>
  The step shared by both revisions of \<open>synthesize\<close>: for raw PCM, build the header for the
  length of the payload and put it in front.
\<close>

definition wrapPcm :: "string \<Rightarrow> int \<Rightarrow> buffer \<Rightarrow> js_error + buffer" where
  "wrapPcm outputFormat sampleRate audioBuffer =
     (if outputFormat = ''pcm_s16le''
      then bindE (generateWavHeader (int (length audioBuffer)) sampleRate 1 16)
             (\<lambda>wavHeader. Inr (wavHeader @ audioBuffer))
      else Inr audioBuffer)"

section \<open>The operations\<close>

subsection \<open>Audio: synthesize\<close>

definition synthesize :: "env \<Rightarrow> host \<Rightarrow> nat \<Rightarrow> world \<Rightarrow> node_output list outcome" where
  "synthesize lib this i w =
     (let text = stringParameter this ''text'' i;
          voiceId = numberParameter this ''voiceId'' i;
          language = stringParameter this ''language'' i;
          model = stringParameter this ''model'' i;
          outputFormat = stringParameter this ''outputFormat'' i;
          binaryPropertyName = stringParameter this ''binaryPropertyName'' i;
          options = objectParameter this ''options'' i
      in if length text < 3 \<or> length text > 3000
         then (Some (Inl (NodeOperationError ''Text must be between 3 and 3000 characters'' i)), w)
         else
           (let body = [(''text'', JStr text), (''voice_id'', JNum voiceId),
                        (''language'', JStr language), (''speech_model'', JStr model),
                        (''enhance_named_entities_pronunciation'',
                           js_or (obj_get options ''enhanceNamedEntities'') (JBool False)),
                        (''output_configuration'', JObj [(''format'', JStr outputFormat)])];
                body = (if truthy (obj_get options ''userInstructions'')
                        then obj_set ''user_instructions'' (obj_get options ''userInstructions'') body
                        else body)
            in andThen (await (cambAiApiRequest lib w ''POST'' (JStr ''/tts-stream'') body []
                          [(''timeout'', JNum 60000), (''encoding'', JStr ''arraybuffer''),
                           (''returnFullResponse'', JBool True), (''json'', JBool False)]))
                 (\<lambda>response w.
               andThen (pureE (bindE (getProp response ''body'') bufferFrom) w)
                 (\<lambda>audioBuffer w.
               andThen (pureE (wrapPcm outputFormat (lookup_or MODEL_SAMPLE_RATES model 22050)
                                 audioBuffer) w)
                 (\<lambda>audioBuffer w.
                   (let mimeType = lookup_or mimeTypes outputFormat ''audio/wav'';
                        extension = lookup_or extensions outputFormat ''wav'';
                        fileName = js_or (obj_get options ''fileName'')
                                     (JStr (''tts_output.'' @ extension));
                        binaryData = prepareBinaryData audioBuffer fileName (JStr mimeType)
                    in (Some (Inr [\<lparr>json = JObj [(''text'', JStr text), (''voiceId'', JNum voiceId),
                                                  (''language'', JStr language),
                                                  (''model'', JStr model),
                                                  (''outputFormat'', JStr outputFormat),
                                                  (''fileName'', fileName),
                                                  (''size'', JNum (int (length audioBuffer)))],
                                      binary = Some [(binaryPropertyName, binaryData)],
                                      pairedItem = i\<rparr>]), w)))))))"

text \<open>\<open>synthesize\<close> in the synthesize-only revision (\<open>CambAi.node.ts\<close>): a fixed 24000 Hz.\<close>

definition synthesize_v1 :: "env \<Rightarrow> host \<Rightarrow> nat \<Rightarrow> world \<Rightarrow> node_output list outcome" where
  "synthesize_v1 lib this i w =
     (let text = stringParameter this ''text'' i;
          voice = stringParameter this ''voice'' i;
          model = stringParameter this ''model'' i;
          outputFormat = stringParameter this ''outputFormat'' i;
          binaryPropertyName = stringParameter this ''binaryPropertyName'' i;
          voiceOptions = objectParameter this ''voiceOptions'' i
      in if length text < 3 \<or> length text > 3000
         then (Some (Inl (NodeOperationError ''Text must be between 3 and 3000 characters'' i)), w)
         else
           (let body = [(''text'', JStr text), (''voice'', JStr voice), (''model'', JStr model),
                        (''output_format'', JStr outputFormat)];
                body = (if obj_get voiceOptions ''speed'' \<noteq> JUndefined
                        then obj_set ''speed'' (obj_get voiceOptions ''speed'') body else body);
                body = (if truthy (obj_get voiceOptions ''language'')
                        then obj_set ''language'' (obj_get voiceOptions ''language'') body
                        else body);
                body = (if truthy (obj_get voiceOptions ''userInstructions'')
                        then obj_set ''user_instructions''
                               (obj_get voiceOptions ''userInstructions'') body
                        else body)
            in andThen (await (cambAiApiRequest_v1 lib w ''POST'' (JStr ''/tts-stream'') body []
                          [(''timeout'', JNum 60000), (''encoding'', JStr ''arraybuffer''),
                           (''returnFullResponse'', JBool True), (''json'', JBool False)]))
                 (\<lambda>response w.
               andThen (pureE (bindE (getProp response ''body'') bufferFrom) w)
                 (\<lambda>audioBuffer w.
               andThen (pureE (wrapPcm outputFormat 24000 audioBuffer) w)
                 (\<lambda>audioBuffer w.
                   (let mimeType = lookup_or mimeTypes outputFormat ''audio/wav'';
                        extension = lookup_or extensions outputFormat ''wav'';
                        fileName = js_or (obj_get voiceOptions ''fileName'')
                                     (JStr (''tts_output.'' @ extension));
                        binaryData = prepareBinaryData audioBuffer fileName (JStr mimeType)
                    in (Some (Inr [\<lparr>json = JObj [(''text'', JStr text), (''voice'', JStr voice),
                                                  (''model'', JStr model),
                                                  (''outputFormat'', JStr outputFormat),
                                                  (''fileName'', fileName),
                                                  (''size'', JNum (int (length audioBuffer)))],
                                      binary = Some [(binaryPropertyName, binaryData)],
                                      pairedItem = i\<rparr>]), w)))))))"

subsection \<open>Audio: translated TTS, sound generation, separation\<close>

definition translatedTts ::
  "env \<Rightarrow> host \<Rightarrow> nat \<Rightarrow> nat \<Rightarrow> world \<Rightarrow> node_output list outcome" where
  "translatedTts lib this fuel i w =
     (let text = stringParameter this ''text'' i;
          sourceLanguage = numberParameter this ''sourceLanguage'' i;
          targetLanguage = numberParameter this ''targetLanguage'' i;
          voiceId = numberParameter this ''voiceId'' i;
          binaryPropertyName = stringParameter this ''binaryPropertyName'' i;
          body = [(''text'', JStr text), (''source_language'', JNum sourceLanguage),
                  (''target_language'', JNum targetLanguage)];
          body = (if voiceId \<noteq> 0 then obj_set ''voice_id'' (JNum voiceId) body else body)
      in andThen (await (cambAiApiRequest lib w ''POST'' (JStr ''/translated-tts'') body [] []))
           (\<lambda>response w.
         andThen (pureE (getProp response ''task_id'') w)
           (\<lambda>taskId w.
         andThen (pollForResult lib fuel w (JStr (''/translated-tts/'' @ ToString taskId)) 3000)
           (\<lambda>result w.
         andThen (pureE (getProp result ''run_id'') w)
           (\<lambda>runId w.
         andThen (await (cambAiApiRequest lib w ''GET'' (JStr (''/tts-result/'' @ ToString runId))
                    [] []
                    [(''encoding'', JStr ''arraybuffer''), (''returnFullResponse'', JBool True),
                     (''json'', JBool False)]))
           (\<lambda>audioResponse w.
         andThen (pureE (bindE (getProp audioResponse ''body'') bufferFrom) w)
           (\<lambda>audioBuffer w.
             (let fileName = JStr (''translated_tts_'' @ ToString taskId @ ''.wav'');
                  binaryData = prepareBinaryData audioBuffer fileName (JStr ''audio/wav'')
              in (Some (Inr [\<lparr>json = JObj [(''taskId'', taskId), (''runId'', runId),
                                            (''text'', JStr text),
                                            (''sourceLanguage'', JNum sourceLanguage),
                                            (''targetLanguage'', JNum targetLanguage),
                                            (''size'', JNum (int (length audioBuffer)))],
                                binary = Some [(binaryPropertyName, binaryData)],
                                pairedItem = i\<rparr>]), w)))))))))"

definition generateSound ::
  "env \<Rightarrow> host \<Rightarrow> nat \<Rightarrow> nat \<Rightarrow> world \<Rightarrow> node_output list outcome" where
  "generateSound lib this fuel i w =
     (let prompt = stringParameter this ''prompt'' i;
          audioType = stringParameter this ''audioType'' i;
          duration = numberParameter this ''duration'' i;
          outputFormat = stringParameter this ''outputFormat'' i;
          binaryPropertyName = stringParameter this ''binaryPropertyName'' i;
          body = [(''prompt'', JStr prompt), (''audio_type'', JStr audioType),
                  (''duration'', JNum duration)]
      in andThen (await (cambAiApiRequest lib w ''POST'' (JStr ''/text-to-sound'') body [] []))
           (\<lambda>response w.
         andThen (pureE (getProp response ''task_id'') w)
           (\<lambda>taskId w.
         andThen (pollForResult lib fuel w (JStr (''/text-to-sound/'' @ ToString taskId)) 3000)
           (\<lambda>result w.
         andThen (pureE (getProp result ''run_id'') w)
           (\<lambda>runId w.
         andThen (await (cambAiApiRequest lib w ''GET''
                    (JStr (''/text-to-sound-result/'' @ ToString runId)) [] []
                    [(''encoding'', JStr ''arraybuffer''), (''returnFullResponse'', JBool True),
                     (''json'', JBool False)]))
           (\<lambda>audioResponse w.
         andThen (pureE (bindE (getProp audioResponse ''body'') bufferFrom) w)
           (\<lambda>audioBuffer w.
             (let mimeType = lookup_or mimeTypes outputFormat ''audio/wav'';
                  extension = lookup_or extensions outputFormat ''wav'';
                  fileName = JStr (''sound_'' @ ToString taskId @ ''.'' @ extension);
                  binaryData = prepareBinaryData audioBuffer fileName (JStr mimeType)
              in (Some (Inr [\<lparr>json = JObj [(''taskId'', taskId), (''runId'', runId),
                                            (''prompt'', JStr prompt),
                                            (''audioType'', JStr audioType),
                                            (''duration'', JNum duration),
                                            (''size'', JNum (int (length audioBuffer)))],
                                binary = Some [(binaryPropertyName, binaryData)],
                                pairedItem = i\<rparr>]), w)))))))))"

text \<open>
  \<open>formData.append('media_file', buffer, { filename, contentType })\<close>: the file entry of a
  form, with the name it is appended under.
\<close>

definition fileEntry :: "string \<Rightarrow> buffer \<Rightarrow> binary_data \<Rightarrow> string \<Rightarrow> string \<times> jsval" where
  "fileEntry name buf binaryData fallback =
     (name, JObj [(''value'', JBuf buf),
                  (''filename'', js_or (fileName binaryData) (JStr fallback)),
                  (''contentType'', mimeType binaryData)])"

definition separateAudio ::
  "env \<Rightarrow> host \<Rightarrow> nat \<Rightarrow> nat \<Rightarrow> world \<Rightarrow> node_output list outcome" where
  "separateAudio lib this fuel i w =
     (let inputBinaryField = stringParameter this ''inputBinaryField'' i;
          binaryPropertyName = stringParameter this ''binaryPropertyName'' i
      in andThen (pureE (assertBinaryData this i inputBinaryField) w)
           (\<lambda>binaryData w.
         andThen (pureE (getBinaryDataBuffer this i inputBinaryField) w)
           (\<lambda>buf w.
         andThen (await (cambAiApiRequest lib w ''POST'' (JStr ''/audio-separation'') [] []
                    [(''formData'', JForm [fileEntry ''media_file'' buf binaryData ''audio.wav''])]))
           (\<lambda>response w.
         andThen (pureE (getProp response ''task_id'') w)
           (\<lambda>taskId w.
         andThen (pollForResult lib fuel w (JStr (''/audio-separation/'' @ ToString taskId)) 3000)
           (\<lambda>result w.
         andThen (pureE (getProp result ''run_id'') w)
           (\<lambda>runId w.
         andThen (await (cambAiApiRequest lib w ''GET''
                    (JStr (''/audio-separation-result/'' @ ToString runId)) [] [] []))
           (\<lambda>audioResult w.
         andThen (pureE (getProp audioResult ''foreground_audio_url'') w)
           (\<lambda>foregroundUrl w.
         andThen (pureE (getProp audioResult ''background_audio_url'') w)
           (\<lambda>backgroundUrl w.
         andThen (await (cambAiApiRequest lib w ''GET'' foregroundUrl [] []
                    [(''encoding'', JStr ''arraybuffer''), (''returnFullResponse'', JBool True),
                     (''json'', JBool False), (''baseURL'', JStr [])]))
           (\<lambda>foregroundResponse w.
         andThen (pureE (bindE (getProp foregroundResponse ''body'') bufferFrom) w)
           (\<lambda>foregroundBuffer w.
         andThen (await (cambAiApiRequest lib w ''GET'' backgroundUrl [] []
                    [(''encoding'', JStr ''arraybuffer''), (''returnFullResponse'', JBool True),
                     (''json'', JBool False), (''baseURL'', JStr [])]))
           (\<lambda>backgroundResponse w.
         andThen (pureE (bindE (getProp backgroundResponse ''body'') bufferFrom) w)
           (\<lambda>backgroundBuffer w.
             (let foregroundBinary = prepareBinaryData foregroundBuffer
                    (JStr (''foreground_'' @ ToString taskId @ ''.wav'')) (JStr ''audio/wav'');
                  backgroundBinary = prepareBinaryData backgroundBuffer
                    (JStr (''background_'' @ ToString taskId @ ''.wav'')) (JStr ''audio/wav'')
              in (Some (Inr [\<lparr>json = JObj [(''taskId'', taskId), (''runId'', runId),
                                            (''foregroundUrl'', foregroundUrl),
                                            (''backgroundUrl'', backgroundUrl)],
                                binary = Some [(binaryPropertyName, foregroundBinary),
                                               (binaryPropertyName @ ''_background'',
                                                backgroundBinary)],
                                pairedItem = i\<rparr>]), w))))))))))))))))"

subsection \<open>Text: transcribe, translate\<close>

text \<open>\<open>segments.map((s) => s.text)\<close>: the first segment that is \<open>null\<close> stops the map.\<close>

fun segmentTexts :: "jsval list \<Rightarrow> js_error + jsval list" where
  "segmentTexts [] = Inr []"
| "segmentTexts (s # ss) =
     bindE (getProp s ''text'') (\<lambda>t. bindE (segmentTexts ss) (\<lambda>ts. Inr (t # ts)))"

definition joinTexts :: "jsval \<Rightarrow> js_error + string" where
  "joinTexts segments =
     (case segments of
        JArr ss \<Rightarrow>
          bindE (segmentTexts ss)
            (\<lambda>ts. Inr (join '' '' (map (\<lambda>x. if x = JUndefined \<or> x = JNull then []
                                                else ToString x) ts)))
      | _ \<Rightarrow> Inl (TypeError ''segments.map is not a function''))"

definition transcribe ::
  "env \<Rightarrow> host \<Rightarrow> nat \<Rightarrow> nat \<Rightarrow> world \<Rightarrow> node_output list outcome" where
  "transcribe lib this fuel i w =
     (let inputBinaryField = stringParameter this ''inputBinaryField'' i;
          languageId = numberParameter this ''languageId'' i
      in andThen (pureE (assertBinaryData this i inputBinaryField) w)
           (\<lambda>binaryData w.
         andThen (pureE (getBinaryDataBuffer this i inputBinaryField) w)
           (\<lambda>buf w.
         andThen (await (cambAiApiRequest lib w ''POST'' (JStr ''/transcribe'') [] []
                    [(''formData'', JForm [fileEntry ''media_file'' buf binaryData ''audio.wav'',
                                            (''language'', JStr (string_of_int languageId))])]))
           (\<lambda>response w.
         andThen (pureE (getProp response ''task_id'') w)
           (\<lambda>taskId w.
         andThen (pollForResult lib fuel w (JStr (''/transcribe/'' @ ToString taskId)) 3000)
           (\<lambda>pollResult w.
         andThen (pureE (getProp pollResult ''run_id'') w)
           (\<lambda>runId w.
         andThen (await (cambAiApiRequest lib w ''GET''
                    (JStr (''/transcription-result/'' @ ToString runId)) []
                    [(''data_type'', JStr ''json''), (''format_type'', JStr ''txt'')] []))
           (\<lambda>transcriptResult w.
         andThen (pureE (getProp transcriptResult ''transcript'') w)
           (\<lambda>transcriptField w.
             (let segments = js_or transcriptField (JArr [])
              in andThen (pureE (joinTexts segments) w)
                   (\<lambda>transcript w.
                     (Some (Inr [\<lparr>json = JObj [(''taskId'', taskId), (''runId'', runId),
                                               (''languageId'', JNum languageId),
                                               (''transcript'', JStr transcript),
                                               (''segments'', segments)],
                                   binary = None,
                                   pairedItem = i\<rparr>]), w))))))))))))"

text \<open>
  The texts of \<open>translate\<close>: \<open>JSON.parse(textsInput)\<close> inside \<open>try\<close>, kept when it is an
  array, replaced by \<open>[textsInput]\<close> when it is not or when parsing throws.
\<close>

definition parseTexts :: "env \<Rightarrow> string \<Rightarrow> jsval" where
  "parseTexts lib textsInput =
     (case JSON_parse lib textsInput of
        Some texts \<Rightarrow> (if \<not> isArray texts then JArr [JStr textsInput] else texts)
      | None \<Rightarrow> JArr [JStr textsInput])"

definition translate ::
  "env \<Rightarrow> host \<Rightarrow> nat \<Rightarrow> nat \<Rightarrow> world \<Rightarrow> node_output list outcome" where
  "translate lib this fuel i w =
     (let textsInput = stringParameter this ''texts'' i;
          sourceLanguage = numberParameter this ''sourceLanguage'' i;
          targetLanguage = numberParameter this ''targetLanguage'' i;
          options = objectParameter this ''options'' i;
          texts = parseTexts lib textsInput;
          body = [(''texts'', texts), (''source_language'', JNum sourceLanguage),
                  (''target_language'', JNum targetLanguage)];
          body = (if truthy (obj_get options ''formality'')
                  then obj_set ''formality'' (obj_get options ''formality'') body else body)
      in andThen (await (cambAiApiRequest lib w ''POST'' (JStr ''/translate'') body [] []))
           (\<lambda>response w.
         andThen (pureE (getProp response ''task_id'') w)
           (\<lambda>taskId w.
         andThen (pollForResult lib fuel w (JStr (''/translate/'' @ ToString taskId)) 3000)
           (\<lambda>result w.
         andThen (pureE (getProp result ''run_id'') w)
           (\<lambda>runId w.
         andThen (await (cambAiApiRequest lib w ''GET''
                    (JStr (''/translation-result/'' @ ToString runId)) [] [] []))
           (\<lambda>translationResult w.
         andThen (pureE (getProp translationResult ''texts'') w)
           (\<lambda>translatedTexts w.
             (Some (Inr [\<lparr>json = JObj [(''taskId'', taskId), (''runId'', runId),
                                       (''sourceLanguage'', JNum sourceLanguage),
                                       (''targetLanguage'', JNum targetLanguage),
                                       (''originalTexts'', texts),
                                       (''translatedTexts'', translatedTexts)],
                           binary = None,
                           pairedItem = i\<rparr>]), w))))))))"

subsection \<open>Voice: create, clone, list\<close>

text \<open>
  The second half of \<open>createVoice\<close>, from \<open>const previews = voiceResult.previews\<close> on: the
  two downloads and the output record.
\<close>

definition createVoice_previews ::
  "env \<Rightarrow> string \<Rightarrow> string \<Rightarrow> jsval \<Rightarrow> jsval \<Rightarrow> jsval \<Rightarrow> nat \<Rightarrow> world \<Rightarrow>
   node_output list outcome" where
  "createVoice_previews lib binaryPropertyName voiceDescription taskId runId previews i w =
     andThen (pureE (getIndex previews 0) w)
       (\<lambda>preview1Url w.
     andThen (await (cambAiApiRequest lib w ''GET'' preview1Url [] []
                [(''encoding'', JStr ''arraybuffer''), (''returnFullResponse'', JBool True),
                 (''json'', JBool False), (''baseURL'', JStr [])]))
       (\<lambda>preview1Response w.
     andThen (pureE (bindE (getProp preview1Response ''body'') bufferFrom) w)
       (\<lambda>preview1Buffer w.
     andThen (pureE (getIndex previews 1) w)
       (\<lambda>preview2Url w.
     andThen (await (cambAiApiRequest lib w ''GET'' preview2Url [] []
                [(''encoding'', JStr ''arraybuffer''), (''returnFullResponse'', JBool True),
                 (''json'', JBool False), (''baseURL'', JStr [])]))
       (\<lambda>preview2Response w.
     andThen (pureE (bindE (getProp preview2Response ''body'') bufferFrom) w)
       (\<lambda>preview2Buffer w.
         (let preview1Binary = prepareBinaryData preview1Buffer
                (JStr (''voice_preview_1_'' @ ToString runId @ ''.mp3'')) (JStr ''audio/mpeg'');
              preview2Binary = prepareBinaryData preview2Buffer
                (JStr (''voice_preview_2_'' @ ToString runId @ ''.mp3'')) (JStr ''audio/mpeg'')
          in (Some (Inr [\<lparr>json = JObj [(''taskId'', taskId), (''runId'', runId),
                                        (''voiceDescription'', JStr voiceDescription),
                                        (''previewUrls'', previews)],
                            binary = Some [(binaryPropertyName, preview1Binary),
                                           (binaryPropertyName @ ''_preview2'', preview2Binary)],
                            pairedItem = i\<rparr>]), w))))))))"

definition createVoice ::
  "env \<Rightarrow> host \<Rightarrow> nat \<Rightarrow> nat \<Rightarrow> world \<Rightarrow> node_output list outcome" where
  "createVoice lib this fuel i w =
     (let text = stringParameter this ''text'' i;
          voiceDescription = stringParameter this ''voiceDescription'' i;
          binaryPropertyName = stringParameter this ''binaryPropertyName'' i
      in if length voiceDescription < 100
         then (Some (Inl (NodeOperationError
                 ''Voice description must be at least 100 characters (18+ words)'' i)), w)
         else
           (let body = [(''text'', JStr text), (''voice_description'', JStr voiceDescription)]
            in andThen (await (cambAiApiRequest lib w ''POST'' (JStr ''/text-to-voice'') body [] []))
                 (\<lambda>response w.
               andThen (pureE (getProp response ''task_id'') w)
                 (\<lambda>taskId w.
               andThen (pollForResult lib fuel w (JStr (''/text-to-voice/'' @ ToString taskId)) 3000)
                 (\<lambda>result w.
               andThen (pureE (getProp result ''run_id'') w)
                 (\<lambda>runId w.
               andThen (await (cambAiApiRequest lib w ''GET''
                          (JStr (''/text-to-voice-result/'' @ ToString runId)) [] [] []))
                 (\<lambda>voiceResult w.
               andThen (pureE (getProp voiceResult ''previews'') w)
                 (\<lambda>previews w.
                   createVoice_previews lib binaryPropertyName voiceDescription taskId runId
                     previews i w))))))))"

definition cloneVoice :: "env \<Rightarrow> host \<Rightarrow> nat \<Rightarrow> world \<Rightarrow> node_output list outcome" where
  "cloneVoice lib this i w =
     (let inputBinaryField = stringParameter this ''inputBinaryField'' i;
          voiceName = stringParameter this ''voiceName'' i;
          gender = numberParameter this ''gender'' i;
          age = numberParameter this ''age'' i;
          options = objectParameter this ''options'' i
      in andThen (pureE (assertBinaryData this i inputBinaryField) w)
           (\<lambda>binaryData w.
         andThen (pureE (getBinaryDataBuffer this i inputBinaryField) w)
           (\<lambda>buf w.
             (let formData = [fileEntry ''file'' buf binaryData ''voice_sample.wav'',
                              (''voice_name'', JStr voiceName),
                              (''gender'', JStr (string_of_int gender)),
                              (''age'', JStr (string_of_int age))];
                  formData = (if truthy (obj_get options ''description'')
                              then formData @ [(''description'',
                                                JStr (ToString (obj_get options ''description'')))]
                              else formData);
                  formData = (if truthy (obj_get options ''language'')
                              then formData @ [(''language'',
                                                JStr (ToString (obj_get options ''language'')))]
                              else formData);
                  formData = (if obj_get options ''enhanceAudio'' \<noteq> JUndefined
                              then formData @ [(''enhance_audio'',
                                                JStr (ToString (obj_get options ''enhanceAudio'')))]
                              else formData)
              in andThen (await (cambAiApiRequest lib w ''POST'' (JStr ''/create-custom-voice'')
                            [] [] [(''formData'', JForm formData)]))
                   (\<lambda>result w.
                 andThen (pureE (getProp result ''voice_id'') w)
                   (\<lambda>voice_id w.
                     (Some (Inr [\<lparr>json = JObj (obj_assign
                                               [(''voiceId'', voice_id),
                                                (''voiceName'', JStr voiceName),
                                                (''gender'', JNum gender), (''age'', JNum age)]
                                               (case result of JObj kvs \<Rightarrow> kvs | _ \<Rightarrow> [])),
                                   binary = None,
                                   pairedItem = i\<rparr>]), w)))))))"

definition listVoices :: "env \<Rightarrow> host \<Rightarrow> nat \<Rightarrow> world \<Rightarrow> node_output list outcome" where
  "listVoices lib this i w =
     andThen (await (cambAiApiRequest lib w ''GET'' (JStr ''/list-voices'') [] [] []))
       (\<lambda>voices w.
         (case voices of
            JArr vs \<Rightarrow>
              (Some (Inr (map (\<lambda>voice. \<lparr>json = voice, binary = None, pairedItem = i\<rparr>) vs)), w)
          | _ \<Rightarrow> (Some (Inr []), w)))"

section \<open>The batch loop\<close>

text \<open>The body of the \<open>try\<close> in \<open>execute\<close>: the chain of tests on resource and operation.\<close>

definition processItem ::
  "env \<Rightarrow> host \<Rightarrow> nat \<Rightarrow> nat \<Rightarrow> world \<Rightarrow> node_output list outcome" where
  "processItem lib this fuel i w =
     (let resource = stringParameter this ''resource'' 0;
          operation = stringParameter this ''operation'' 0
      in if resource = ''audio'' \<and> operation = ''synthesize'' then synthesize lib this i w
         else if resource = ''audio'' \<and> operation = ''translatedTts''
           then translatedTts lib this fuel i w
         else if resource = ''audio'' \<and> operation = ''generateSound''
           then generateSound lib this fuel i w
         else if resource = ''audio'' \<and> operation = ''separateAudio''
           then separateAudio lib this fuel i w
         else if resource = ''text'' \<and> operation = ''transcribe'' then transcribe lib this fuel i w
         else if resource = ''text'' \<and> operation = ''translate'' then translate lib this fuel i w
         else if resource = ''voice'' \<and> operation = ''createVoice''
           then createVoice lib this fuel i w
         else if resource = ''voice'' \<and> operation = ''cloneVoice'' then cloneVoice lib this i w
         else if resource = ''voice'' \<and> operation = ''listVoices'' then listVoices lib this i w
         else (Some (Inr []), w))"

definition processItem_v1 ::
  "env \<Rightarrow> host \<Rightarrow> nat \<Rightarrow> nat \<Rightarrow> world \<Rightarrow> node_output list outcome" where
  "processItem_v1 lib this fuel i w =
     (let operation = stringParameter this ''operation'' 0
      in if operation = ''synthesize'' then synthesize_v1 lib this i w
         else (Some (Inr []), w))"

text \<open>The record pushed by the \<open>catch\<close> of \<open>execute\<close> when the node continues on failure.\<close>

definition errorRecord :: "env \<Rightarrow> js_error \<Rightarrow> nat \<Rightarrow> node_output" where
  "errorRecord lib error i =
     \<lparr>json = JObj [(''error'', message lib error)], binary = None, pairedItem = i\<rparr>"

text \<open>
  The loop \<open>for (let i = 0; i < items.length; i++)\<close> with its \<open>try\<close> and \<open>catch\<close>, from item
  \<open>i\<close> on, \<open>returnData\<close> being what has been pushed so far. The two revisions of the node
  differ in the body only, which is the first argument.
\<close>

function executeFrom ::
  "(env \<Rightarrow> host \<Rightarrow> nat \<Rightarrow> nat \<Rightarrow> world \<Rightarrow> node_output list outcome) \<Rightarrow>
   env \<Rightarrow> host \<Rightarrow> nat \<Rightarrow> nat \<Rightarrow> node_output list \<Rightarrow> world \<Rightarrow> node_output list outcome" where
  "executeFrom body lib this fuel i returnData w =
     (if i < numItems this then
        (case body lib this fuel i w of
           (Some (Inr pushed), w') \<Rightarrow>
             executeFrom body lib this fuel (i + 1) (returnData @ pushed) w'
         | (Some (Inl error), w') \<Rightarrow>
             (if continueOnFail this
              then executeFrom body lib this fuel (i + 1)
                     (returnData @ [errorRecord lib error i]) w'
              else (Some (Inl error), w'))
         | (None, w') \<Rightarrow> (None, w'))
      else (Some (Inr returnData), w))"
  by pat_completeness auto
termination
  by (relation "measure (\<lambda>(body, lib, this, fuel, i, returnData, w). numItems this - i)") auto

text \<open>\<open>execute\<close>, which returns \<open>[returnData]\<close>: the version with all operations, and the
  synthesize-only revision.\<close>

definition execute :: "env \<Rightarrow> host \<Rightarrow> nat \<Rightarrow> world \<Rightarrow> node_output list list outcome" where
  "execute lib this fuel w =
     andThen (executeFrom processItem lib this fuel 0 [] w)
       (\<lambda>returnData w. (Some (Inr [returnData]), w))"

definition execute_v1 :: "env \<Rightarrow> host \<Rightarrow> nat \<Rightarrow> world \<Rightarrow> node_output list list outcome" where
  "execute_v1 lib this fuel w =
     andThen (executeFrom processItem_v1 lib this fuel 0 [] w)
       (\<lambda>returnData w. (Some (Inr [returnData]), w))"

section \<open>Vocabulary of the statements\<close>

text \<open>
  Predicates in which the properties below are stated, and sample environments, worlds and
  hosts at which they are instantiated.
\<close>

text \<open>The validation error of an operation is a \<open>NodeOperationError\<close>.\<close>

fun isValidationError :: "js_error \<Rightarrow> bool" where
  "isValidationError (NodeOperationError m i) = True"
| "isValidationError _ = False"

text \<open>A result, and an outcome, that is no validation error.\<close>

definition passes :: "js_error + 'a \<Rightarrow> bool" where
  "passes r = (case r of Inl e \<Rightarrow> \<not> isValidationError e | Inr x \<Rightarrow> True)"

definition passed :: "'a outcome \<Rightarrow> bool" where
  "passed r = (case fst r of Some (Inl e) \<Rightarrow> \<not> isValidationError e | _ \<Rightarrow> True)"

text \<open>The call log after an outcome extends the log before it.\<close>

definition grows :: "world \<Rightarrow> 'a outcome \<Rightarrow> bool" where
  "grows w r = (\<exists>cs. calls (snd r) = calls w @ cs)"

text \<open>Every record of an outcome is paired with item \<open>i\<close>.\<close>

definition paired :: "nat \<Rightarrow> node_output list outcome \<Rightarrow> bool" where
  "paired i r = (case fst r of Some (Inr outs) \<Rightarrow> \<forall>out \<in> set outs. pairedItem out = i | _ \<Rightarrow> True)"

text \<open>
  A sample environment: a \<open>NodeApiError\<close> and a \<open>NodeOperationError\<close> expose the message they
  were given; two strings are parsed.
\<close>

definition sample_env :: env where
  "sample_env =
     \<lparr>apiErrorMessage = (\<lambda>e m. case m of Some s \<Rightarrow> JStr s | None \<Rightarrow> JUndefined),
      operationErrorMessage = (\<lambda>s i. JStr s),
      JSON_parse = (\<lambda>s. if s = ''[1, 2]'' then Some (JArr [JNum 1, JNum 2])
                          else if s = ''7'' then Some (JNum 7) else None)\<rparr>"

text \<open>A host with the given resource, operation and string parameters.\<close>

definition sample_host :: "string \<Rightarrow> string \<Rightarrow> (string \<times> string) list \<Rightarrow> bool \<Rightarrow> nat \<Rightarrow> host" where
  "sample_host res op params continue n =
     \<lparr>numItems = n,
      stringParameter = (\<lambda>k i. if k = ''resource'' then res else if k = ''operation'' then op
                                else lookup_or params k []),
      numberParameter = (\<lambda>k i. 1),
      objectParameter = (\<lambda>k i. []),
      continueOnFail = continue,
      assertBinaryData = (\<lambda>i f. Inl (Error ''no binary data'')),
      getBinaryDataBuffer = (\<lambda>i f. Inl (Error ''no binary data''))\<rparr>"

text \<open>A world in which every call is answered with \<open>null\<close>.\<close>

definition idle_world :: world where
  "idle_world = \<lparr>server = (\<lambda>n c. Inr JNull), calls = [], sleeps = []\<rparr>"

text \<open>A world in which every call fails with the same error.\<close>

definition failing_world :: "js_error \<Rightarrow> world" where
  "failing_world e = \<lparr>server = (\<lambda>n c. Inl e), calls = [], sleeps = []\<rparr>"

text \<open>A world that answers the \<open>n\<close>-th call with the \<open>n\<close>-th reply of a list.\<close>

definition scripted :: "(js_error + jsval) list \<Rightarrow> world" where
  "scripted replies =
     \<lparr>server = (\<lambda>n c. if n < length replies then replies ! n else Inr JNull),
      calls = [], sleeps = []\<rparr>"

text \<open>The same, behind a helper that rejects a request without URL.\<close>

definition strict_world :: "(js_error + jsval) list \<Rightarrow> world" where
  "strict_world replies =
     \<lparr>server = (\<lambda>n c. if obj_get (requestOptions_of c) ''url'' = JUndefined
                        then Inl (HttpFailure None (Some ''Invalid URL''))
                        else if n < length replies then replies ! n else Inr JNull),
      calls = [], sleeps = []\<rparr>"

text \<open>Hosts and worlds of the closed instances.\<close>

definition pcm_host :: host where
  "pcm_host = sample_host ''audio'' ''synthesize''
     [(''text'', ''Hello, world''), (''outputFormat'', ''pcm_s16le''), (''model'', ''mars-pro''),
      (''binaryPropertyName'', ''data'')] False 1"

definition text_host :: "string \<Rightarrow> bool \<Rightarrow> host" where
  "text_host text continue = sample_host ''audio'' ''synthesize''
     [(''text'', text), (''outputFormat'', ''wav''), (''model'', ''mars-flash''),
      (''binaryPropertyName'', ''data'')] continue 2"

definition voice_host :: host where
  "voice_host = sample_host ''voice'' ''createVoice''
     [(''binaryPropertyName'', ''data''), (''voiceDescription'', replicate 100 CHR ''a'')] False 1"

text \<open>
  A run of \<open>createVoice\<close> from the first request to the last: the replies to the submit
  request, the status request, the result fetch (with the given list of previews) and two
  downloads, behind a helper that rejects a request without URL.
\<close>

definition voice_world :: "jsval list \<Rightarrow> world" where
  "voice_world urls =
     strict_world [Inr (JObj [(''task_id'', JStr ''t1'')]),
                   Inr (JObj [(''status'', JStr ''SUCCESS''), (''run_id'', JStr ''r7'')]),
                   Inr (JObj [(''previews'', JArr urls)]),
                   Inr (JObj [(''body'', JBuf [1, 2, 3])]),
                   Inr (JObj [(''body'', JBuf [4, 5])])]"

definition three_urls :: "jsval list" where
  "three_urls = [JStr ''https://cdn.example/p1.mp3'', JStr ''https://cdn.example/p2.mp3'',
                 JStr ''https://cdn.example/p3.mp3'']"

text \<open>
  A batch of two items for \<open>synthesize\<close>: the text of item 0 is too short, the text of
  item 1 is not; and a world that answers the one request with three bytes of audio.
\<close>

definition batch_host :: "bool \<Rightarrow> host" where
  "batch_host continue =
     \<lparr>numItems = 2,
      stringParameter = (\<lambda>k i. if k = ''resource'' then ''audio''
                               else if k = ''operation'' then ''synthesize''
                               else if k = ''text'' then (if i = 0 then ''Hi'' else ''Hello'')
                               else if k = ''outputFormat'' then ''wav''
                               else if k = ''binaryPropertyName'' then ''data'' else []),
      numberParameter = (\<lambda>k i. 1),
      objectParameter = (\<lambda>k i. []),
      continueOnFail = continue,
      assertBinaryData = (\<lambda>i f. Inl (Error ''no binary data'')),
      getBinaryDataBuffer = (\<lambda>i f. Inl (Error ''no binary data''))\<rparr>"

definition batch_world :: world where
  "batch_world = scripted [Inr (JObj [(''body'', JBuf [1, 2, 3])])]"

section \<open>Properties of the WAV container builder\<close>

lemma length_le_bytes [simp]: "length (le_bytes n v) = n"
  by (induction n arbitrary: v) simp_all

lemma le_value_le_bytes:
  "0 \<le> v \<Longrightarrow> v < 256 ^ n \<Longrightarrow> int (le_value (le_bytes n v)) = v"
proof (induction n arbitrary: v)
  case 0
  then show ?case by simp
next
  case (Suc n)
  have d: "0 \<le> v div 256" "v div 256 < 256 ^ n"
  proof -
    show "0 \<le> v div 256" using Suc.prems by (simp add: pos_imp_zdiv_nonneg_iff)
    have "v < 256 ^ n * 256" using Suc.prems by (simp add: mult.commute)
    then show "v div 256 < 256 ^ n" by simp
  qed
  have u: "int (unat (word_of_int v :: 8 word)) = v mod 256"
    by (simp add: unat_eq_nat_uint uint_word_of_int)
  show ?case
    using Suc.IH [OF d] u by simp
qed

lemma writeUIntLE_ok:
  "0 \<le> v \<Longrightarrow> v \<le> 2 ^ (8 * n) - 1 \<Longrightarrow> off + n \<le> length buf \<Longrightarrow>
   writeUIntLE n v off buf = Inr (put_bytes (le_bytes n \<lfloor>v\<rfloor>) off buf)"
  by (simp add: writeUIntLE_def)

lemma bufWrite_ok:
  "off + length s \<le> length buf \<Longrightarrow> bufWrite s off buf = Inr (put_bytes (map of_char s) off buf)"
  by (simp add: bufWrite_def)

lemma length_put_bytes:
  "off + length bs \<le> length buf \<Longrightarrow> length (put_bytes bs off buf) = length buf"
  by (simp add: put_bytes_def)

lemma bindE_Inr [simp]: "bindE (Inr x) f = f x"
  by (simp add: bindE_def)

lemma bindE_Inl [simp]: "bindE (Inl e) f = Inl e"
  by (simp add: bindE_def)

lemma byteRate_floor:
  "\<lfloor>(of_int a :: rat) * of_int b * (of_int c / 8)\<rfloor> = a * b * c div 8"
proof -
  have "(of_int a :: rat) * of_int b * (of_int c / 8) = of_int (a * b * c) / of_int 8"
    by simp
  then show ?thesis
    by (simp only: floor_divide_of_int_eq)
qed

lemma blockAlign_floor:
  "\<lfloor>(of_int b :: rat) * (of_int c / 8)\<rfloor> = b * c div 8"
proof -
  have "(of_int b :: rat) * (of_int c / 8) = of_int (b * c) / of_int 8"
    by simp
  then show ?thesis
    by (simp only: floor_divide_of_int_eq)
qed

lemma rat_scaled_le:
  "a \<le> 8 * m \<Longrightarrow> (of_int a :: rat) / 8 \<le> of_int m"
proof -
  assume "a \<le> 8 * m"
  then have "(of_int a :: rat) \<le> of_int (8 * m)"
    by (simp only: of_int_le_iff)
  then show ?thesis by simp
qed

lemma header_writes:
  fixes FS SR BR BA NC BPS DL :: rat
  assumes "0 \<le> FS" "FS \<le> 4294967295" "0 \<le> NC" "NC \<le> 65535" "0 \<le> SR" "SR \<le> 4294967295"
    and "0 \<le> BR" "BR \<le> 4294967295" "0 \<le> BA" "BA \<le> 65535" "0 \<le> BPS" "BPS \<le> 65535"
    and "0 \<le> DL" "DL \<le> 4294967295"
  shows "bindE (bufWrite ''RIFF'' 0 (replicate 44 0)) (\<lambda>header.
         bindE (writeUIntLE 4 FS 4 header) (\<lambda>header.
         bindE (bufWrite ''WAVE'' 8 header) (\<lambda>header.
         bindE (bufWrite ''fmt '' 12 header) (\<lambda>header.
         bindE (writeUIntLE 4 16 16 header) (\<lambda>header.
         bindE (writeUIntLE 2 1 20 header) (\<lambda>header.
         bindE (writeUIntLE 2 NC 22 header) (\<lambda>header.
         bindE (writeUIntLE 4 SR 24 header) (\<lambda>header.
         bindE (writeUIntLE 4 BR 28 header) (\<lambda>header.
         bindE (writeUIntLE 2 BA 32 header) (\<lambda>header.
         bindE (writeUIntLE 2 BPS 34 header) (\<lambda>header.
         bindE (bufWrite ''data'' 36 header) (\<lambda>header.
         bindE (writeUIntLE 4 DL 40 header) (\<lambda>header.
         Inr header)))))))))))))
       = Inr (map of_char ''RIFF'' @ le_bytes 4 \<lfloor>FS\<rfloor> @ map of_char ''WAVE'' @
              map of_char ''fmt '' @ le_bytes 4 16 @ le_bytes 2 1 @ le_bytes 2 \<lfloor>NC\<rfloor> @
              le_bytes 4 \<lfloor>SR\<rfloor> @ le_bytes 4 \<lfloor>BR\<rfloor> @ le_bytes 2 \<lfloor>BA\<rfloor> @
              le_bytes 2 \<lfloor>BPS\<rfloor> @ map of_char ''data'' @ le_bytes 4 \<lfloor>DL\<rfloor>)"
  using assms by (simp add: writeUIntLE_def bufWrite_def put_bytes_def not_less)

lemma generateWavHeader_layout:
  assumes "0 \<le> dataLength" "dataLength \<le> 4294967259"
    and "0 \<le> sampleRate" "sampleRate \<le> 4294967295"
    and "0 \<le> numChannels" "numChannels \<le> 65535"
    and "0 \<le> bitsPerSample" "bitsPerSample \<le> 65535"
    and "sampleRate * numChannels * bitsPerSample \<le> 34359738360"
    and "numChannels * bitsPerSample \<le> 524280"
  shows "generateWavHeader dataLength sampleRate numChannels bitsPerSample =
         Inr (wav_layout dataLength sampleRate numChannels bitsPerSample)"
proof -
  define BR where "BR = (of_int sampleRate :: rat) * of_int numChannels * (of_int bitsPerSample / 8)"
  define BA where "BA = (of_int numChannels :: rat) * (of_int bitsPerSample / 8)"
  define FS where "FS = (36 + of_int dataLength :: rat)"
  have eq1: "BR = of_int (sampleRate * numChannels * bitsPerSample) / 8"
    by (simp add: BR_def)
  have eq2: "BA = of_int (numChannels * bitsPerSample) / 8"
    by (simp add: BA_def)
  have br0: "0 \<le> BR"
    using assms by (simp add: BR_def)
  have br1: "BR \<le> 4294967295"
    unfolding eq1 using rat_scaled_le [of "sampleRate * numChannels * bitsPerSample" 4294967295] assms(9)
    by simp
  have ba0: "0 \<le> BA"
    using assms by (simp add: BA_def)
  have ba1: "BA \<le> 65535"
    unfolding eq2 using rat_scaled_le [of "numChannels * bitsPerSample" 65535] assms(10)
    by simp
  have fs: "FS \<le> 4294967295" "0 \<le> FS"
    using assms(1,2) by (simp_all add: FS_def)
  have fl: "\<lfloor>FS\<rfloor> = 36 + dataLength"
    unfolding FS_def by (metis floor_of_int of_int_add of_int_numeral)
  have rest: "0 \<le> (of_int numChannels :: rat)" "(of_int numChannels :: rat) \<le> 65535"
     "0 \<le> (of_int sampleRate :: rat)" "(of_int sampleRate :: rat) \<le> 4294967295"
     "0 \<le> (of_int bitsPerSample :: rat)" "(of_int bitsPerSample :: rat) \<le> 65535"
     "0 \<le> (of_int dataLength :: rat)" "(of_int dataLength :: rat) \<le> 4294967295"
    using assms by simp_all
  have "generateWavHeader dataLength sampleRate numChannels bitsPerSample =
        Inr (map of_char ''RIFF'' @ le_bytes 4 \<lfloor>FS\<rfloor> @ map of_char ''WAVE'' @
              map of_char ''fmt '' @ le_bytes 4 16 @ le_bytes 2 1 @
              le_bytes 2 \<lfloor>of_int numChannels :: rat\<rfloor> @
              le_bytes 4 \<lfloor>of_int sampleRate :: rat\<rfloor> @ le_bytes 4 \<lfloor>BR\<rfloor> @ le_bytes 2 \<lfloor>BA\<rfloor> @
              le_bytes 2 \<lfloor>of_int bitsPerSample :: rat\<rfloor> @ map of_char ''data'' @
              le_bytes 4 \<lfloor>of_int dataLength :: rat\<rfloor>)"
    unfolding generateWavHeader_def Let_def alloc_def BR_def [symmetric] BA_def [symmetric]
      FS_def [symmetric]
    by (rule header_writes [OF fs(2) fs(1) rest(1,2,3,4) br0 br1 ba0 ba1 rest(5,6,7,8)])
  also have "\<dots> = Inr (wav_layout dataLength sampleRate numChannels bitsPerSample)"
    unfolding fl wav_layout_def BR_def BA_def byteRate_floor blockAlign_floor floor_of_int ..
  finally show ?thesis .
qed

lemma char_roundtrip: "char_of (unat (of_char c :: 8 word)) = c"
proof -
  have "(of_char c :: 8 word) = of_nat (of_char c)"
    by (simp add: of_nat_of_char)
  then have "unat (of_char c :: 8 word) = of_char c mod 256"
    by (simp only: unat_of_nat) simp
  then show ?thesis
    by (simp add: of_char_mod_256)
qed

lemma ascii_roundtrip: "map (\<lambda>b. char_of (unat (b :: 8 word))) (map of_char s) = s"
  by (simp add: o_def char_roundtrip)

lemma read_field:
  "0 \<le> v \<Longrightarrow> v < 256 ^ n \<Longrightarrow> length pre = off \<Longrightarrow>
   int (readUIntLE (pre @ le_bytes n v @ post) off n) = v"
  by (simp add: readUIntLE_def le_value_le_bytes)

lemma read_tag:
  "length pre = off \<Longrightarrow> length s = n \<Longrightarrow>
   ascii_at (pre @ map of_char s @ post) off n = s"
  by (simp add: ascii_at_def o_def char_roundtrip)

text \<open>
  Claim C3, as amended. Whenever every field fits the width the format gives it
  (\<open>36 + dataLength\<close>, \<open>sampleRate\<close> and the byte rate below \<open>2^32\<close>; \<open>numChannels\<close>,
  \<open>bitsPerSample\<close> and the block alignment below \<open>2^16\<close>), \<open>generateWavHeader\<close> returns a
  buffer of exactly 44 bytes that reads back, little-endian, as: \<open>RIFF\<close> at 0, the u32
  \<open>36 + dataLength\<close> at 4, \<open>WAVE\<close> at 8, \<open>fmt \<close> at 12, the u32 16 at 16, the u16 1 at 20, the
  u16 \<open>numChannels\<close> at 22, the u32 \<open>sampleRate\<close> at 24, the u32 byte rate
  \<open>sampleRate * numChannels * bitsPerSample / 8\<close> (rounded down) at 28, the u16 block
  alignment \<open>numChannels * bitsPerSample / 8\<close> (rounded down) at 32, the u16 \<open>bitsPerSample\<close>
  at 34, \<open>data\<close> at 36 and the u32 \<open>dataLength\<close> at 40.
\<close>

theorem generateWavHeader_fields:
  assumes "0 \<le> dataLength" "dataLength \<le> 4294967259"
    and "0 < sampleRate" "sampleRate \<le> 4294967295"
    and "0 < numChannels" "numChannels \<le> 65535"
    and "0 < bitsPerSample" "bitsPerSample \<le> 65535"
    and "sampleRate * numChannels * bitsPerSample \<le> 34359738360"
    and "numChannels * bitsPerSample \<le> 524280"
  shows "\<exists>header. generateWavHeader dataLength sampleRate numChannels bitsPerSample = Inr header
           \<and> length header = 44
           \<and> ascii_at header 0 4 = ''RIFF''
           \<and> int (readUIntLE header 4 4) = 36 + dataLength
           \<and> ascii_at header 8 4 = ''WAVE''
           \<and> ascii_at header 12 4 = ''fmt ''
           \<and> int (readUIntLE header 16 4) = 16
           \<and> int (readUIntLE header 20 2) = 1
           \<and> int (readUIntLE header 22 2) = numChannels
           \<and> int (readUIntLE header 24 4) = sampleRate
           \<and> int (readUIntLE header 28 4) = sampleRate * numChannels * bitsPerSample div 8
           \<and> int (readUIntLE header 32 2) = numChannels * bitsPerSample div 8
           \<and> int (readUIntLE header 34 2) = bitsPerSample
           \<and> ascii_at header 36 4 = ''data''
           \<and> int (readUIntLE header 40 4) = dataLength"
proof -
  let ?h = "wav_layout dataLength sampleRate numChannels bitsPerSample"
  have gen: "generateWavHeader dataLength sampleRate numChannels bitsPerSample = Inr ?h"
    using assms by (intro generateWavHeader_layout) simp_all
  have br: "0 \<le> sampleRate * numChannels * bitsPerSample div 8"
           "sampleRate * numChannels * bitsPerSample div 8 < 256 ^ 4"
    using assms by (simp_all add: pos_imp_zdiv_nonneg_iff)
  have ba: "0 \<le> numChannels * bitsPerSample div 8"
           "numChannels * bitsPerSample div 8 < 256 ^ 2"
    using assms by (simp_all add: pos_imp_zdiv_nonneg_iff)
  have len: "length ?h = 44"
    by (simp add: wav_layout_def)
  let ?R = "map of_char ''RIFF'' :: buffer" and ?W = "map of_char ''WAVE'' :: buffer"
    and ?F = "map of_char ''fmt '' :: buffer" and ?D = "map of_char ''data'' :: buffer"
  let ?p4 = "?R" 
  let ?p8 = "?p4 @ le_bytes 4 (36 + dataLength)"
  let ?p12 = "?p8 @ ?W"
  let ?p16 = "?p12 @ ?F"
  let ?p20 = "?p16 @ le_bytes 4 16"
  let ?p22 = "?p20 @ le_bytes 2 1"
  let ?p24 = "?p22 @ le_bytes 2 numChannels"
  let ?p28 = "?p24 @ le_bytes 4 sampleRate"
  let ?p32 = "?p28 @ le_bytes 4 (sampleRate * numChannels * bitsPerSample div 8)"
  let ?p34 = "?p32 @ le_bytes 2 (numChannels * bitsPerSample div 8)"
  let ?p36 = "?p34 @ le_bytes 2 bitsPerSample"
  let ?p40 = "?p36 @ ?D"
  have t0: "ascii_at ?h 0 4 = ''RIFF''"
    unfolding wav_layout_def using read_tag [of "[]" 0 "''RIFF''" 4] by simp
  have f4: "int (readUIntLE ?h 4 4) = 36 + dataLength"
    unfolding wav_layout_def
    using read_field [of "36 + dataLength" 4 ?p4 4] assms by simp
  have t8: "ascii_at ?h 8 4 = ''WAVE''"
    unfolding wav_layout_def using read_tag [of ?p8 8 "''WAVE''" 4] by simp
  have t12: "ascii_at ?h 12 4 = ''fmt ''"
    unfolding wav_layout_def using read_tag [of ?p12 12 "''fmt ''" 4] by simp
  have f16: "int (readUIntLE ?h 16 4) = 16"
    unfolding wav_layout_def using read_field [of 16 4 ?p16 16] by simp
  have f20: "int (readUIntLE ?h 20 2) = 1"
    unfolding wav_layout_def using read_field [of 1 2 ?p20 20] by simp
  have f22: "int (readUIntLE ?h 22 2) = numChannels"
    unfolding wav_layout_def using read_field [of numChannels 2 ?p22 22] assms by simp
  have f24: "int (readUIntLE ?h 24 4) = sampleRate"
    unfolding wav_layout_def using read_field [of sampleRate 4 ?p24 24] assms by simp
  have f28: "int (readUIntLE ?h 28 4) = sampleRate * numChannels * bitsPerSample div 8"
    unfolding wav_layout_def
    using read_field [OF br, of ?p28 28] by simp
  have f32: "int (readUIntLE ?h 32 2) = numChannels * bitsPerSample div 8"
    unfolding wav_layout_def
    using read_field [OF ba, of ?p32 32] by simp
  have f34: "int (readUIntLE ?h 34 2) = bitsPerSample"
    unfolding wav_layout_def using read_field [of bitsPerSample 2 ?p34 34] assms by simp
  have t36: "ascii_at ?h 36 4 = ''data''"
    unfolding wav_layout_def using read_tag [of ?p36 36 "''data''" 4] by simp
  have f40: "int (readUIntLE ?h 40 4) = dataLength"
    unfolding wav_layout_def
    using read_field [of dataLength 4 ?p40 40 "[]"] assms by simp
  show ?thesis
    using gen len t0 f4 t8 t12 f16 f20 f22 f24 f28 f32 f34 t36 f40 by blast
qed

text \<open>The amended claim C3 at the spec's scenario: 1000 bytes of mono 16-bit audio at 24000 Hz.\<close>

theorem generateWavHeader_fields_witness:
  "(0::int) \<le> 1000 \<and> (1000::int) \<le> 4294967259 \<and> (0::int) < 24000 \<and> (0::int) < 1 \<and> (0::int) < 16
   \<and> (24000::int) * 1 * 16 \<le> 34359738360 \<and> (1::int) * 16 \<le> 524280
   \<and> (\<exists>header. generateWavHeader 1000 24000 1 16 = Inr header
           \<and> length header = 44
           \<and> ascii_at header 0 4 = ''RIFF''
           \<and> int (readUIntLE header 4 4) = 1036
           \<and> ascii_at header 8 4 = ''WAVE''
           \<and> ascii_at header 12 4 = ''fmt ''
           \<and> int (readUIntLE header 16 4) = 16
           \<and> int (readUIntLE header 20 2) = 1
           \<and> int (readUIntLE header 22 2) = 1
           \<and> int (readUIntLE header 24 4) = 24000
           \<and> int (readUIntLE header 28 4) = 48000
           \<and> int (readUIntLE header 32 2) = 2
           \<and> int (readUIntLE header 34 2) = 16
           \<and> ascii_at header 36 4 = ''data''
           \<and> int (readUIntLE header 40 4) = 1000)"
  using generateWavHeader_fields [of 1000 24000 1 16] by simp

text \<open>
  Claim C3 as stated fails: with a payload of \<open>2^32 - 36\<close> bytes the file size no longer
  fits its field, \<open>writeUInt32LE\<close> throws, and no header is returned. And where the byte
  rate is not a whole number (one channel at 1 Hz with 12 bits per sample: 1.5 bytes per
  second), the field holds its integer part.
\<close>

theorem generateWavHeader_range_counterexample:
  "generateWavHeader 4294967260 22050 1 16 = Inl (RangeError ''ERR_OUT_OF_RANGE'')
   \<and> (case generateWavHeader 1000 1 1 12 of
         Inl e \<Rightarrow> False
       | Inr header \<Rightarrow> readUIntLE header 28 4 = 1 \<and> readUIntLE header 32 2 = 1)
   \<and> (1 * 1 * (12 / 8) :: rat) = 3 / 2"
  by code_simp

section \<open>Objects\<close>

lemma keys_obj_set: "fst ` set (obj_set k v ob) = insert k (fst ` set ob)"
  by (induction ob) auto

lemma obj_get_obj_set: "obj_get (obj_set k v ob) k' = (if k' = k then v else obj_get ob k')"
  by (induction ob) (auto simp: obj_get_def)

lemma keys_obj_delete: "fst ` set (obj_delete k ob) = fst ` set ob - {k}"
  by (auto simp: obj_delete_def)

lemma obj_get_obj_delete: "k' \<noteq> k \<Longrightarrow> obj_get (obj_delete k ob) k' = obj_get ob k'"
  by (induction ob) (auto simp: obj_get_def obj_delete_def)

lemma keys_obj_assign: "fst ` set (obj_assign target source) = fst ` set target \<union> fst ` set source"
  unfolding obj_assign_def
  by (induction source arbitrary: target) (auto simp: keys_obj_set)

lemma obj_get_obj_assign_other:
  "k \<notin> fst ` set source \<Longrightarrow> obj_get (obj_assign target source) k = obj_get target k"
  unfolding obj_assign_def
  by (induction source arbitrary: target) (auto simp: obj_get_obj_set)

section \<open>Properties of the request client\<close>

lemma cambAiApiRequest_one_call:
  assumes "cambAiApiRequest lib w method endpoint body qs options = (res, w')"
  shows "calls w' = calls w @ [buildRequest method endpoint body qs options] \<and>
         sleeps w' = sleeps w \<and> server w' = server w \<and>
         res = (case server w (length (calls w)) (buildRequest method endpoint body qs options) of
                  Inr response \<Rightarrow> Inr response
                | Inl error \<Rightarrow> Inl (classify lib error))"
  using assms unfolding cambAiApiRequest_def
  by (auto simp: perform_def split: sum.splits)

lemma cambAiApiRequest_v1_one_call:
  assumes "cambAiApiRequest_v1 lib w method endpoint body qs options = (res, w')"
  shows "calls w' = calls w @ [buildRequest_v1 method endpoint body qs options] \<and>
         sleeps w' = sleeps w \<and> server w' = server w \<and>
         res = (case server w (length (calls w)) (buildRequest_v1 method endpoint body qs options) of
                  Inr response \<Rightarrow> Inr response
                | Inl error \<Rightarrow> Inl (classify lib error))"
  using assms unfolding cambAiApiRequest_v1_def
  by (auto simp: perform_def split: sum.splits)

lemma cambAiApiRequest_reply:
  "cambAiApiRequest lib w method endpoint body qs options =
     ((case server w (length (calls w)) (buildRequest method endpoint body qs options) of
         Inr response \<Rightarrow> Inr response
       | Inl error \<Rightarrow> Inl (classify lib error)),
      w\<lparr>calls := calls w @ [buildRequest method endpoint body qs options]\<rparr>)"
  by (simp add: cambAiApiRequest_def perform_def split: sum.splits)

lemma cambAiApiRequest_v1_reply:
  "cambAiApiRequest_v1 lib w method endpoint body qs options =
     ((case server w (length (calls w)) (buildRequest_v1 method endpoint body qs options) of
         Inr response \<Rightarrow> Inr response
       | Inl error \<Rightarrow> Inl (classify lib error)),
      w\<lparr>calls := calls w @ [buildRequest_v1 method endpoint body qs options]\<rparr>)"
  by (simp add: cambAiApiRequest_v1_def perform_def split: sum.splits)

text \<open>
  Claim C4. In both revisions \<open>cambAiApiRequest\<close> makes exactly one call and never sleeps;
  when that call fails, the result is the thrown \<open>NodeApiError\<close> that wraps the original error:
  with the invalid-credentials message for status 401, the rate-limit message for 429, the
  message \<open>Bad request: \<close> followed by the upstream message (or by \<open>Invalid parameters\<close> when
  there is none) for 400, and without a message of its own for anything else.
\<close>

theorem cambAiApiRequest_failure_classified:
  fixes lib :: env and w w' :: world and res :: "js_error + jsval"
  defines "surfaced \<equiv>
     (\<exists>c. calls w' = calls w @ [c] \<and> sleeps w' = sleeps w \<and>
        (\<forall>error. server w (length (calls w)) c = Inl error \<longrightarrow>
           (statusCode lib error = Some 401 \<longrightarrow>
              res = Inl (NodeApiError error
                      (Some ''Invalid API key. Please check your Camb.ai credentials.'')))
         \<and> (statusCode lib error = Some 429 \<longrightarrow>
              res = Inl (NodeApiError error
                      (Some ''Rate limit exceeded. Please wait before making more requests.'')))
         \<and> (statusCode lib error = Some 400 \<longrightarrow>
              res = Inl (NodeApiError error
                      (Some (''Bad request: '' @
                             (if truthy (message lib error) then ToString (message lib error)
                              else ''Invalid parameters'')))))
         \<and> (statusCode lib error \<notin> {Some 401, Some 429, Some 400} \<longrightarrow>
              res = Inl (NodeApiError error None))))"
  shows "(cambAiApiRequest lib w method endpoint body qs options = (res, w') \<longrightarrow> surfaced)
       \<and> (cambAiApiRequest_v1 lib w method endpoint body qs options = (res, w') \<longrightarrow> surfaced)"
proof -
  have key: "surfaced"
    if "calls w' = calls w @ [c] \<and> sleeps w' = sleeps w \<and> server w' = server w \<and>
             res = (case server w (length (calls w)) c of
                      Inr response \<Rightarrow> Inr response
                    | Inl error \<Rightarrow> Inl (classify lib error))" for c
  proof -
    from that have c: "calls w' = calls w @ [c]" "sleeps w' = sleeps w"
      "res = (case server w (length (calls w)) c of
                      Inr response \<Rightarrow> Inr response
                    | Inl error \<Rightarrow> Inl (classify lib error))"
      by simp_all
    show ?thesis
      unfolding surfaced_def
      by (rule exI [of _ c]) (auto simp: c classify_def js_or_def)
  qed
  show ?thesis
    using key cambAiApiRequest_one_call cambAiApiRequest_v1_one_call by blast
qed

text \<open>
  Claim C4 at a concrete failure: a 400 whose upstream message is \<open>unknown voice\<close>.
\<close>

theorem cambAiApiRequest_failure_classified_witness:
  "cambAiApiRequest sample_env (failing_world (HttpFailure (Some 400) (Some ''unknown voice'')))
     ''POST'' (JStr ''/tts-stream'') [] [] []
   = (Inl (NodeApiError (HttpFailure (Some 400) (Some ''unknown voice''))
             (Some ''Bad request: unknown voice'')),
      (failing_world (HttpFailure (Some 400) (Some ''unknown voice'')))
        \<lparr>calls := [buildRequest ''POST'' (JStr ''/tts-stream'') [] [] []]\<rparr>)
   \<and> (\<exists>c. calls ((failing_world (HttpFailure (Some 400) (Some ''unknown voice'')))
                    \<lparr>calls := [buildRequest ''POST'' (JStr ''/tts-stream'') [] [] []]\<rparr>)
            = calls (failing_world (HttpFailure (Some 400) (Some ''unknown voice''))) @ [c])"
proof -
  let ?e = "HttpFailure (Some 400) (Some ''unknown voice'')"
  let ?w' = "(failing_world ?e)\<lparr>calls := [buildRequest ''POST'' (JStr ''/tts-stream'') [] [] []]\<rparr>"
  let ?res = "Inl (NodeApiError ?e (Some ''Bad request: unknown voice'')) :: js_error + jsval"
  have h: "cambAiApiRequest sample_env (failing_world ?e) ''POST'' (JStr ''/tts-stream'') [] [] []
           = (?res, ?w')"
    by (simp add: cambAiApiRequest_def failing_world_def perform_def classify_def sample_env_def
          js_or_def)
  from cambAiApiRequest_failure_classified
         [of sample_env "failing_world ?e" "''POST''" "JStr ''/tts-stream''" "[]" "[]" "[]"
             ?res ?w', THEN conjunct1, rule_format, OF h]
  have "\<exists>c. calls ?w' = calls (failing_world ?e) @ [c]"
    by blast
  with h show ?thesis
    by blast
qed

lemma buildRequest_no_marker:
  "''baseURL'' \<notin> fst ` set (requestOptions_of (buildRequest method endpoint body qs options))"
  unfolding buildRequest_def Let_def
  by (simp add: keys_obj_set keys_obj_assign keys_obj_delete)

lemma buildRequest_url:
  assumes "''url'' \<notin> fst ` set options"
  shows "obj_get (requestOptions_of (buildRequest method endpoint body qs options)) ''url'' =
           (if obj_get options ''baseURL'' = JStr [] then endpoint
            else if obj_get options ''baseURL'' = JUndefined
            then JStr (BASE_URL @ ToString endpoint)
            else JStr (ToString (obj_get options ''baseURL'') @ ToString endpoint))"
proof -
  have k: "''url'' \<notin> fst ` set (obj_delete ''formData'' (obj_delete ''baseURL'' options))"
    using assms by (simp add: keys_obj_delete)
  have d: "obj_get (obj_delete ''body'' ob) ''url'' = obj_get ob ''url''" for ob
    by (simp add: obj_get_obj_delete)
  show ?thesis
    unfolding buildRequest_def Let_def
    by (simp add: obj_get_obj_set obj_get_obj_assign_other [OF k] d BASE_URL_def)
       (simp add: obj_get_def)
qed

lemma buildRequest_helper:
  "buildRequest method endpoint body qs options =
     (if obj_get options ''baseURL'' = JStr []
      then HttpRequest (requestOptions_of (buildRequest method endpoint body qs options))
      else HttpRequestWithAuthentication ''cambAiApi''
             (requestOptions_of (buildRequest method endpoint body qs options)))"
  unfolding buildRequest_def Let_def by (simp add: BASE_URL_def)

text \<open>
  Claim C5, as amended. For options without an entry \<open>url\<close> of their own: when \<open>baseURL\<close> is
  the empty string, the endpoint is the URL as it stands and the call is made without the
  credential; when no \<open>baseURL\<close> is given, the endpoint is appended to
  \<open>https://client.camb.ai/apis\<close> and the call carries the credential \<open>cambAiApi\<close>. In
  both cases the request options that are sent have no \<open>baseURL\<close> entry. (What happens for
  any other \<open>baseURL\<close> is in \<open>buildRequest_url\<close> and \<open>buildRequest_helper\<close>.)
\<close>

theorem cambAiApiRequest_target:
  assumes "cambAiApiRequest lib w method endpoint body qs options = (res, w')"
    and "''url'' \<notin> fst ` set options"
  shows "\<exists>requestOptions.
           ''baseURL'' \<notin> fst ` set requestOptions
         \<and> (obj_get options ''baseURL'' = JStr [] \<longrightarrow>
              calls w' = calls w @ [HttpRequest requestOptions]
            \<and> obj_get requestOptions ''url'' = endpoint)
         \<and> (obj_get options ''baseURL'' = JUndefined \<longrightarrow>
              calls w' = calls w @ [HttpRequestWithAuthentication ''cambAiApi'' requestOptions]
            \<and> obj_get requestOptions ''url'' =
                JStr (''https://client.camb.ai/apis'' @ ToString endpoint))"
proof -
  let ?c = "buildRequest method endpoint body qs options"
  have c: "calls w' = calls w @ [?c]"
    using cambAiApiRequest_one_call [OF assms(1)] by simp
  show ?thesis
    apply (rule exI [of _ "requestOptions_of ?c"])
    using buildRequest_no_marker [of "method" "endpoint" body qs options]
      buildRequest_url [OF assms(2), of "method" "endpoint" body qs]
      buildRequest_helper [of "method" "endpoint" body qs options] c
    by (auto simp: BASE_URL_def)
qed

text \<open>
  The amended claim C5 at a download: \<open>baseURL\<close> empty, the endpoint an absolute URL.
\<close>

theorem cambAiApiRequest_target_witness:
  "cambAiApiRequest sample_env idle_world ''GET'' (JStr ''https://cdn.example/a.wav'') [] []
     [(''encoding'', JStr ''arraybuffer''), (''baseURL'', JStr [])]
   = (Inr JNull,
      idle_world\<lparr>calls := [HttpRequest [(''method'', JStr ''GET''),
                                         (''url'', JStr ''https://cdn.example/a.wav''),
                                         (''json'', JBool True),
                                         (''encoding'', JStr ''arraybuffer'')]]\<rparr>)
   \<and> ''url'' \<notin> fst ` set [(''encoding'', JStr ''arraybuffer''), (''baseURL'', JStr [])]
   \<and> (\<exists>requestOptions.
         ''baseURL'' \<notin> fst ` set requestOptions
       \<and> [HttpRequest [(''method'', JStr ''GET''), (''url'', JStr ''https://cdn.example/a.wav''),
                        (''json'', JBool True), (''encoding'', JStr ''arraybuffer'')]]
           = [HttpRequest requestOptions]
       \<and> obj_get requestOptions ''url'' = JStr ''https://cdn.example/a.wav'')"
proof -
  let ?opts = "[(''encoding'', JStr ''arraybuffer''), (''baseURL'', JStr [])]"
  let ?w' = "idle_world\<lparr>calls := [HttpRequest [(''method'', JStr ''GET''),
                                         (''url'', JStr ''https://cdn.example/a.wav''),
                                         (''json'', JBool True),
                                         (''encoding'', JStr ''arraybuffer'')]]\<rparr>"
  have h: "cambAiApiRequest sample_env idle_world ''GET'' (JStr ''https://cdn.example/a.wav'') [] []
             ?opts = (Inr JNull, ?w')"
    by (simp add: cambAiApiRequest_def buildRequest_def idle_world_def perform_def obj_get_def
          obj_delete_def obj_assign_def Let_def)
  have u: "''url'' \<notin> fst ` set ?opts"
    by simp
  have b: "obj_get ?opts ''baseURL'' = JStr []"
    by (simp add: obj_get_def)
  from cambAiApiRequest_target [OF h u] b h u show ?thesis
    by (simp add: idle_world_def)
qed

text \<open>
  Claim C5 as stated fails twice. A caller that gives a \<open>baseURL\<close> other than the empty
  string has not chosen the empty-base option, yet the endpoint is appended to that value and
  not to the fixed base endpoint. And with the empty-base option, an entry \<open>url\<close> among the
  options replaces the endpoint as the URL of the call.
\<close>

theorem cambAiApiRequest_target_counterexample:
  "obj_get [(''baseURL'', JStr ''https://example.org'')] ''baseURL'' \<noteq> JStr []
   \<and> calls (snd (cambAiApiRequest sample_env idle_world ''GET'' (JStr ''/list-voices'') [] []
                   [(''baseURL'', JStr ''https://example.org'')]))
     = [HttpRequestWithAuthentication ''cambAiApi''
          [(''method'', JStr ''GET''), (''url'', JStr ''https://example.org/list-voices''),
           (''json'', JBool True)]]
   \<and> obj_get [(''url'', JStr ''https://example.org/b.wav''), (''baseURL'', JStr [])] ''baseURL''
       = JStr []
   \<and> calls (snd (cambAiApiRequest sample_env idle_world ''GET'' (JStr ''https://cdn.example/a.wav'')
                   [] [] [(''url'', JStr ''https://example.org/b.wav''), (''baseURL'', JStr [])]))
     = [HttpRequest
          [(''method'', JStr ''GET''), (''url'', JStr ''https://example.org/b.wav''),
           (''json'', JBool True)]]"
  by (simp add: cambAiApiRequest_def buildRequest_def idle_world_def perform_def obj_get_def
        obj_delete_def obj_assign_def Let_def)

lemma buildRequest_poll:
  "buildRequest ''GET'' (JStr path) [] [] [] =
     HttpRequestWithAuthentication ''cambAiApi''
       [(''method'', JStr ''GET''), (''url'', JStr (''https://client.camb.ai/apis'' @ path)),
        (''json'', JBool True)]"
  by (simp add: buildRequest_def obj_get_def obj_delete_def obj_assign_def Let_def BASE_URL_def)

lemma buildRequest_json_body:
  "body \<noteq> [] \<Longrightarrow>
   buildRequest method endpoint body [] [] =
     HttpRequestWithAuthentication ''cambAiApi''
       [(''method'', JStr method), (''url'', JStr (BASE_URL @ ToString endpoint)),
        (''json'', JBool True), (''body'', JObj body)]"
  by (simp add: buildRequest_def obj_get_def obj_delete_def obj_assign_def Let_def BASE_URL_def)

lemma buildRequest_download:
  "buildRequest ''GET'' url [] []
     [(''encoding'', JStr ''arraybuffer''), (''returnFullResponse'', JBool True),
      (''json'', JBool False), (''baseURL'', JStr [])]
   = HttpRequest [(''method'', JStr ''GET''), (''url'', url), (''json'', JBool False),
                  (''encoding'', JStr ''arraybuffer''), (''returnFullResponse'', JBool True)]"
  by (simp add: buildRequest_def obj_get_def obj_delete_def obj_assign_def Let_def)

section \<open>Properties of the task poller\<close>

lemma statusCode_Error [simp]: "statusCode lib (Error m) = None"
  by simp

lemma failureReason_obj:
  "failureReason (JObj envelope) =
     Inr (ToString (js_or (js_or (obj_get envelope ''message'') (obj_get envelope ''error''))
                          (JStr ''Unknown error'')))"
  by (simp add: failureReason_def js_or_def)

text \<open>
  Claim C1. In every pass of the poller whose status request succeeds with an envelope, the
  \<open>status\<close> field is upper-cased and decides the pass, whatever the state \<open>w\<close> reached by
  earlier polls: \<open>SUCCESS\<close> returns the whole envelope; \<open>ERROR\<close> and \<open>FAILED\<close> throw an error
  carrying the failure reason of the payload (\<open>message\<close>, else \<open>error\<close>, else a fixed text);
  \<open>TIMEOUT\<close> throws the server-timeout error; \<open>PAYMENT_REQUIRED\<close> throws the
  insufficient-credits error; every other status, and a missing status field, sleeps one
  interval and goes on with the next pass.
\<close>

theorem pollForResult_dispatch:
  fixes envelope :: obj
  defines "status \<equiv> toUpperCase (ToString (js_or (obj_get envelope ''status'') (JStr [])))"
  assumes "cambAiApiRequest lib w ''GET'' endpoint [] [] [] = (Inr (JObj envelope), w')"
  shows "(status = ''SUCCESS'' \<longrightarrow>
            pollForResult lib (Suc fuel) w endpoint interval = (Some (Inr (JObj envelope)), w'))
       \<and> (status = ''ERROR'' \<or> status = ''FAILED'' \<longrightarrow>
            pollForResult lib (Suc fuel) w endpoint interval =
              (Some (Inl (Error (''Task failed: '' @
                 ToString (js_or (js_or (obj_get envelope ''message'') (obj_get envelope ''error''))
                                 (JStr ''Unknown error''))))), w'))
       \<and> (status = ''TIMEOUT'' \<longrightarrow>
            pollForResult lib (Suc fuel) w endpoint interval =
              (Some (Inl (Error ''Task timed out on the server. Try again or use smaller input.'')),
               w'))
       \<and> (status = ''PAYMENT_REQUIRED'' \<longrightarrow>
            pollForResult lib (Suc fuel) w endpoint interval =
              (Some (Inl (Error
                 ''Insufficient credits. Please check your Camb.ai account balance.'')), w'))
       \<and> (status \<notin> {''SUCCESS'', ''ERROR'', ''FAILED'', ''TIMEOUT'', ''PAYMENT_REQUIRED''} \<longrightarrow>
            pollForResult lib (Suc fuel) w endpoint interval =
              pollForResult lib fuel (w'\<lparr>sleeps := sleeps w' @ [interval]\<rparr>) endpoint interval)
       \<and> (obj_get envelope ''status'' = JUndefined \<longrightarrow>
            pollForResult lib (Suc fuel) w endpoint interval =
              pollForResult lib fuel (w'\<lparr>sleeps := sleeps w' @ [interval]\<rparr>) endpoint interval)"
proof -
  have missing: "status = []" if "obj_get envelope ''status'' = JUndefined"
    using that by (simp add: status_def js_or_def toUpperCase_def)
  have tr: "poll_try lib w endpoint interval =
      (if status = ''SUCCESS'' then (Inr (Finished (JObj envelope)), w')
       else if status = ''ERROR'' \<or> status = ''FAILED'' then
         (Inl (Error (''Task failed: '' @
            ToString (js_or (js_or (obj_get envelope ''message'') (obj_get envelope ''error''))
                            (JStr ''Unknown error'')))), w')
       else if status = ''TIMEOUT'' then
         (Inl (Error ''Task timed out on the server. Try again or use smaller input.''), w')
       else if status = ''PAYMENT_REQUIRED'' then
         (Inl (Error ''Insufficient credits. Please check your Camb.ai account balance.''), w')
       else (Inr KeepPolling, setTimeout interval w'))"
    unfolding poll_try_def assms(2) status_def
    by (simp add: failureReason_obj Let_def)
  show ?thesis
    using missing by (auto simp: tr setTimeout_def)
qed

text \<open>
  Claim C1 at a concrete run: after one pass that found the task pending, the second reply
  has status \<open>payment_required\<close>, and the poller throws the insufficient-credits error.
\<close>

theorem pollForResult_dispatch_witness:
  "cambAiApiRequest sample_env
     ((scripted [Inr (JObj [(''status'', JStr ''pending'')]),
                 Inr (JObj [(''status'', JStr ''payment_required'')])])
        \<lparr>calls := [buildRequest ''GET'' (JStr ''/translate/t1'') [] [] []], sleeps := [3000]\<rparr>)
     ''GET'' (JStr ''/translate/t1'') [] [] []
   = (Inr (JObj [(''status'', JStr ''payment_required'')]),
      (scripted [Inr (JObj [(''status'', JStr ''pending'')]),
                 Inr (JObj [(''status'', JStr ''payment_required'')])])
        \<lparr>calls := [buildRequest ''GET'' (JStr ''/translate/t1'') [] [] [],
                   buildRequest ''GET'' (JStr ''/translate/t1'') [] [] []],
         sleeps := [3000]\<rparr>)
   \<and> toUpperCase (ToString (js_or (obj_get [(''status'', JStr ''payment_required'')] ''status'')
                                    (JStr []))) = ''PAYMENT_REQUIRED''
   \<and> pollForResult sample_env (Suc 0)
       ((scripted [Inr (JObj [(''status'', JStr ''pending'')]),
                   Inr (JObj [(''status'', JStr ''payment_required'')])])
          \<lparr>calls := [buildRequest ''GET'' (JStr ''/translate/t1'') [] [] []], sleeps := [3000]\<rparr>)
       (JStr ''/translate/t1'') 3000
     = (Some (Inl (Error ''Insufficient credits. Please check your Camb.ai account balance.'')),
        (scripted [Inr (JObj [(''status'', JStr ''pending'')]),
                   Inr (JObj [(''status'', JStr ''payment_required'')])])
          \<lparr>calls := [buildRequest ''GET'' (JStr ''/translate/t1'') [] [] [],
                     buildRequest ''GET'' (JStr ''/translate/t1'') [] [] []],
           sleeps := [3000]\<rparr>)"
proof -
  let ?s = "scripted [Inr (JObj [(''status'', JStr ''pending'')]),
                      Inr (JObj [(''status'', JStr ''payment_required'')])]"
  let ?c = "buildRequest ''GET'' (JStr ''/translate/t1'') [] [] []"
  let ?w = "?s\<lparr>calls := [?c], sleeps := [3000]\<rparr>"
  let ?w' = "?s\<lparr>calls := [?c, ?c], sleeps := [3000]\<rparr>"
  let ?envelope = "[(''status'', JStr ''payment_required'')]"
  have h: "cambAiApiRequest sample_env ?w ''GET'' (JStr ''/translate/t1'') [] [] []
             = (Inr (JObj ?envelope), ?w')"
    by (simp add: cambAiApiRequest_reply scripted_def)
  have u: "toUpperCase (ToString (js_or (obj_get ?envelope ''status'') (JStr [])))
             = ''PAYMENT_REQUIRED''"
    by (simp add: obj_get_def js_or_def toUpperCase_def upper_char_def)
  from pollForResult_dispatch [OF h, of 0 3000] u h show ?thesis
    by simp
qed

lemma statusCode_classify [simp]: "statusCode lib (classify lib e) = None"
  by (simp add: classify_def)

text \<open>
  Claim C2 does not hold of the code. When the status request of a pass fails, the error
  the poller catches is the \<open>NodeApiError\<close> in which \<open>cambAiApiRequest\<close> has wrapped the
  transport error, and that has no \<open>statusCode\<close>: the test \<open>err.statusCode === 404\<close> fails
  whatever the transport error was. So for every transport error, a 404 included, the poller
  ends at once by throwing the wrapper, having made one call and slept not at all.
\<close>

theorem pollForResult_request_error:
  assumes "server w (length (calls w)) (buildRequest ''GET'' endpoint [] [] []) = Inl e"
  shows "pollForResult lib (Suc fuel) w endpoint interval =
           (Some (Inl (classify lib e)),
            w\<lparr>calls := calls w @ [buildRequest ''GET'' endpoint [] [] []]\<rparr>)"
proof -
  have "poll_try lib w endpoint interval =
          (Inl (classify lib e), w\<lparr>calls := calls w @ [buildRequest ''GET'' endpoint [] [] []]\<rparr>)"
    using assms unfolding poll_try_def cambAiApiRequest_def perform_def by simp
  then show ?thesis
    by simp
qed

text \<open>
  The poller at a task whose status record is not there yet: the first status request is
  answered with 404, the second would be answered with \<open>SUCCESS\<close>. The poller throws after
  the first request, without sleeping, and the second request is never made.
\<close>

theorem pollForResult_request_error_witness:
  "server (scripted [Inl (HttpFailure (Some 404) (Some ''Not Found'')),
                     Inr (JObj [(''status'', JStr ''SUCCESS'')])]) 0
     (buildRequest ''GET'' (JStr ''/translate/t1'') [] [] [])
   = Inl (HttpFailure (Some 404) (Some ''Not Found''))
   \<and> pollForResult sample_env (Suc 7)
       (scripted [Inl (HttpFailure (Some 404) (Some ''Not Found'')),
                  Inr (JObj [(''status'', JStr ''SUCCESS'')])])
       (JStr ''/translate/t1'') 3000
     = (Some (Inl (NodeApiError (HttpFailure (Some 404) (Some ''Not Found'')) None)),
        \<lparr>server = server (scripted [Inl (HttpFailure (Some 404) (Some ''Not Found'')),
                                    Inr (JObj [(''status'', JStr ''SUCCESS'')])]),
         calls = [HttpRequestWithAuthentication ''cambAiApi''
                    [(''method'', JStr ''GET''),
                     (''url'', JStr ''https://client.camb.ai/apis/translate/t1''),
                     (''json'', JBool True)]],
         sleeps = []\<rparr>)"
proof -
  let ?w = "scripted [Inl (HttpFailure (Some 404) (Some ''Not Found'')),
                      Inr (JObj [(''status'', JStr ''SUCCESS'')])]"
  have h: "server ?w (length (calls ?w)) (buildRequest ''GET'' (JStr ''/translate/t1'') [] [] [])
             = Inl (HttpFailure (Some 404) (Some ''Not Found''))"
    by (simp add: scripted_def)
  from pollForResult_request_error [OF h, of sample_env 7 3000] h show ?thesis
    by (simp add: scripted_def classify_def buildRequest_def obj_get_def obj_delete_def
          obj_assign_def BASE_URL_def Let_def)
qed

section \<open>Sequencing\<close>

lemma andThen_Inr [simp]: "andThen (Some (Inr x), w) f = f x w"
  by (simp add: andThen_def)

lemma andThen_Inl [simp]: "andThen (Some (Inl e), w) f = (Some (Inl e), w)"
  by (simp add: andThen_def)

lemma andThen_None [simp]: "andThen (None, w) f = (None, w)"
  by (simp add: andThen_def)

lemma andThen_pureE_Inr [simp]: "andThen (pureE (Inr x) w) f = f x w"
  by (simp add: pureE_def)

lemma andThen_pureE_Inl [simp]: "andThen (pureE (Inl e) w) f = (Some (Inl e), w)"
  by (simp add: pureE_def)

lemma await_pair [simp]: "await (r, w) = (Some r, w)"
  by (simp add: await_def)

lemma andThen_eq_Inr:
  assumes "andThen r f = (Some (Inr y), w')"
  shows "\<exists>x w1. r = (Some (Inr x), w1) \<and> f x w1 = (Some (Inr y), w')"
proof (cases r)
  case (Pair a w1)
  show ?thesis
  proof (cases a)
    case None
    with Pair assms show ?thesis by simp
  next
    case (Some s)
    with Pair assms show ?thesis by (cases s) simp_all
  qed
qed

lemma grows_refl [simp]: "grows w (x, w)"
  by (simp add: grows_def)

lemma grows_pureE [simp]: "grows w (pureE r w)"
  by (simp add: grows_def pureE_def)

lemma grows_andThen:
  assumes "grows w r" and "\<And>x w1. grows w1 (f x w1)"
  shows "grows w (andThen r f)"
proof (cases r)
  case (Pair a w1)
  from assms(1) Pair obtain cs where cs: "calls w1 = calls w @ cs"
    by (auto simp: grows_def)
  show ?thesis
  proof (cases a)
    case None
    with Pair cs show ?thesis by (simp add: grows_def)
  next
    case (Some s)
    show ?thesis
    proof (cases s)
      case (Inl e)
      with Pair Some cs show ?thesis by (simp add: grows_def)
    next
      case (Inr x)
      from assms(2) [of w1 x] obtain cs' where "calls (snd (f x w1)) = calls w1 @ cs'"
        by (auto simp: grows_def)
      with Pair Some Inr cs show ?thesis by (simp add: grows_def)
    qed
  qed
qed

lemma grows_request [simp]:
  "grows w (await (cambAiApiRequest lib w method endpoint body qs options))"
  by (simp add: cambAiApiRequest_reply grows_def)

lemma grows_setTimeout: "grows (setTimeout interval w) r \<Longrightarrow> grows w r"
  by (simp add: grows_def setTimeout_def)

lemma grows_trans: "grows w (x, w1) \<Longrightarrow> grows w1 r \<Longrightarrow> grows w r"
  by (auto simp: grows_def)

lemma poll_try_grows: "grows w (Some (fst (poll_try lib w endpoint interval)), snd (poll_try lib w endpoint interval))"
  unfolding poll_try_def
  by (auto simp: cambAiApiRequest_reply grows_def setTimeout_def Let_def
           split: sum.splits)

lemma grows_pollForResult [simp]: "grows w (pollForResult lib fuel w endpoint interval)"
proof (induction fuel arbitrary: w)
  case 0
  show ?case by simp
next
  case (Suc fuel)
  obtain r w1 where p: "poll_try lib w endpoint interval = (r, w1)"
    by (cases "poll_try lib w endpoint interval")
  with poll_try_grows [of w lib "endpoint" interval] have g: "grows w (Some r, w1)"
    by simp
  have g': "grows w ((x :: (js_error + jsval) option), w1)" for x
    using g by (simp add: grows_def)
  show ?case
  proof (cases r)
    case (Inl error)
    show ?thesis
      using p Inl g' grows_trans [OF g' grows_setTimeout [OF Suc.IH [of "setTimeout interval w1"]]]
      by simp
  next
    case (Inr a)
    show ?thesis
      using p Inr g' grows_trans [OF g' Suc.IH [of w1]]
      by (cases a) simp_all
  qed
qed

lemma first_call:
  assumes "\<And>x w1. grows w1 (f x w1)"
  shows "\<exists>rest. calls (snd (andThen (await (cambAiApiRequest lib w method endpoint body qs options)) f))
           = calls w @ buildRequest method endpoint body qs options # rest"
proof -
  let ?w1 = "w\<lparr>calls := calls w @ [buildRequest method endpoint body qs options]\<rparr>"
  have "grows ?w1 (andThen (await (cambAiApiRequest lib w method endpoint body qs options)) f)"
    unfolding cambAiApiRequest_reply await_pair
    by (rule grows_andThen [OF _ assms]) simp
  then show ?thesis
    by (auto simp: grows_def)
qed

section \<open>Properties of synthesize\<close>

lemma sample_rate_cases:
  "lookup_or MODEL_SAMPLE_RATES model 22050 = 22050 \<or> lookup_or MODEL_SAMPLE_RATES model 22050 = 48000"
  by (simp add: lookup_or_def MODEL_SAMPLE_RATES_def)

lemma wrapPcm_pcm:
  assumes "length raw \<le> 4294967259" "0 < sampleRate" "sampleRate \<le> 48000"
  shows "wrapPcm ''pcm_s16le'' sampleRate raw =
           Inr (wav_layout (int (length raw)) sampleRate 1 16 @ raw)"
proof -
  have "generateWavHeader (int (length raw)) sampleRate 1 16 =
          Inr (wav_layout (int (length raw)) sampleRate 1 16)"
    using assms by (intro generateWavHeader_layout) simp_all
  then show ?thesis
    by (simp add: wrapPcm_def)
qed

lemma wrapPcm_other: "outputFormat \<noteq> ''pcm_s16le'' \<Longrightarrow> wrapPcm outputFormat sampleRate raw = Inr raw"
  by (simp add: wrapPcm_def)

lemma length_wav_layout: "length (wav_layout d sr nc bps) = 44"
  by (simp add: wav_layout_def)

lemma riff_wav_layout: "ascii_at (wav_layout d sr nc bps @ raw) 0 4 = ''RIFF''"
  unfolding wav_layout_def using read_tag [of "[]" 0 "''RIFF''" 4] by simp

lemma synthesize_result:
  assumes "3 \<le> length (stringParameter this ''text'' i)"
    and "length (stringParameter this ''text'' i) \<le> 3000"
    and "\<forall>c. server w (length (calls w)) c = Inr response"
    and "bindE (getProp response ''body'') bufferFrom = Inr raw"
    and "wrapPcm (stringParameter this ''outputFormat'' i)
           (lookup_or MODEL_SAMPLE_RATES (stringParameter this ''model'' i) 22050) raw = Inr audio"
  shows "\<exists>js fn w'. synthesize lib this i w =
           (Some (Inr [\<lparr>json = js,
                         binary = Some [(stringParameter this ''binaryPropertyName'' i,
                                         \<lparr>data = audio, fileName = fn,
                                            mimeType = JStr (lookup_or mimeTypes
                                              (stringParameter this ''outputFormat'' i)
                                              ''audio/wav'')\<rparr>)],
                         pairedItem = i\<rparr>]), w')"
  using assms(1,2)
  unfolding synthesize_def Let_def
  by (simp add: cambAiApiRequest_reply assms(3,4,5) prepareBinaryData_def not_less)

lemma synthesize_v1_result:
  assumes "3 \<le> length (stringParameter this ''text'' i)"
    and "length (stringParameter this ''text'' i) \<le> 3000"
    and "\<forall>c. server w (length (calls w)) c = Inr response"
    and "bindE (getProp response ''body'') bufferFrom = Inr raw"
    and "wrapPcm (stringParameter this ''outputFormat'' i) 24000 raw = Inr audio"
  shows "\<exists>js fn w'. synthesize_v1 lib this i w =
           (Some (Inr [\<lparr>json = js,
                         binary = Some [(stringParameter this ''binaryPropertyName'' i,
                                         \<lparr>data = audio, fileName = fn,
                                            mimeType = JStr (lookup_or mimeTypes
                                              (stringParameter this ''outputFormat'' i)
                                              ''audio/wav'')\<rparr>)],
                         pairedItem = i\<rparr>]), w')"
  using assms(1,2)
  unfolding synthesize_v1_def Let_def
  by (simp add: cambAiApiRequest_v1_reply assms(3,4,5) prepareBinaryData_def not_less)

text \<open>
  Claim C6, as amended. Let \<open>synthesize\<close> (in either revision) pass validation and receive a
  response whose body is the raw payload. For the output format \<open>pcm_s16le\<close> and a payload of
  at most \<open>2^32 - 37\<close> bytes, the binary output is the 44-byte header of
  \<open>generateWavHeader\<close> followed by the payload: 44 bytes longer than the payload, beginning
  with \<open>RIFF\<close>, with MIME type \<open>audio/wav\<close>. For every other output format the binary output
  is the payload itself.
\<close>

theorem synthesize_pcm_payload:
  fixes this :: host and raw :: buffer and i :: nat
  defines "outputFormat \<equiv> stringParameter this ''outputFormat'' i"
    and "name \<equiv> stringParameter this ''binaryPropertyName'' i"
  defines "wrapped \<equiv> \<lambda>(r :: node_output list outcome) sampleRate.
      \<exists>out bd header w'. r = (Some (Inr [out]), w') \<and> binary out = Some [(name, bd)]
        \<and> generateWavHeader (int (length raw)) sampleRate 1 16 = Inr header
        \<and> length header = 44 \<and> data bd = header @ raw
        \<and> length (data bd) = 44 + length raw \<and> ascii_at (data bd) 0 4 = ''RIFF''
        \<and> mimeType bd = JStr ''audio/wav''"
    and "bare \<equiv> \<lambda>(r :: node_output list outcome).
      \<exists>out bd w'. r = (Some (Inr [out]), w') \<and> binary out = Some [(name, bd)] \<and> data bd = raw"
  assumes "3 \<le> length (stringParameter this ''text'' i)"
    and "length (stringParameter this ''text'' i) \<le> 3000"
    and "\<forall>c. server w (length (calls w)) c = Inr response"
    and "bindE (getProp response ''body'') bufferFrom = Inr raw"
  shows "(outputFormat = ''pcm_s16le'' \<and> length raw \<le> 4294967259 \<longrightarrow>
            wrapped (synthesize lib this i w)
              (lookup_or MODEL_SAMPLE_RATES (stringParameter this ''model'' i) 22050)
          \<and> wrapped (synthesize_v1 lib this i w) 24000)
       \<and> (outputFormat \<noteq> ''pcm_s16le'' \<longrightarrow>
            bare (synthesize lib this i w) \<and> bare (synthesize_v1 lib this i w))"
proof (intro conjI impI)
  let ?sr = "lookup_or MODEL_SAMPLE_RATES (stringParameter this ''model'' i) 22050"
  assume pcm: "outputFormat = ''pcm_s16le'' \<and> length raw \<le> 4294967259"
  have sr: "0 < ?sr" "?sr \<le> 48000"
    using sample_rate_cases [of "stringParameter this ''model'' i"] by auto
  have hdr: "generateWavHeader (int (length raw)) s 1 16 = Inr (wav_layout (int (length raw)) s 1 16)"
    if "0 < s" "s \<le> 48000" for s
    using pcm that by (intro generateWavHeader_layout) simp_all
  have mime: "lookup_or mimeTypes ''pcm_s16le'' ''audio/wav'' = ''audio/wav''"
    by (simp add: lookup_or_def mimeTypes_def)
  have w: "wrapPcm (stringParameter this ''outputFormat'' i) s raw =
             Inr (wav_layout (int (length raw)) s 1 16 @ raw)" if "0 < s" "s \<le> 48000" for s
    using pcm that wrapPcm_pcm [of raw s] by (simp add: outputFormat_def)
  from synthesize_result [OF assms(5,6,7,8) w [OF sr], of lib]
  show "wrapped (synthesize lib this i w) ?sr"
    unfolding wrapped_def name_def
    using hdr [OF sr] pcm mime
    by (auto simp: length_wav_layout riff_wav_layout outputFormat_def)
  from synthesize_v1_result [OF assms(5,6,7,8) w [of 24000], of lib]
  show "wrapped (synthesize_v1 lib this i w) 24000"
    unfolding wrapped_def name_def
    using hdr [of 24000] pcm mime
    by (auto simp: length_wav_layout riff_wav_layout outputFormat_def)
next
  assume other: "outputFormat \<noteq> ''pcm_s16le''"
  then have w: "wrapPcm (stringParameter this ''outputFormat'' i) s raw = Inr raw" for s
    by (simp add: wrapPcm_other outputFormat_def)
  from synthesize_result [OF assms(5,6,7,8) w, of lib]
  show "bare (synthesize lib this i w)"
    unfolding bare_def name_def by auto
  from synthesize_v1_result [OF assms(5,6,7,8) w, of lib]
  show "bare (synthesize_v1 lib this i w)"
    unfolding bare_def name_def by auto
qed

text \<open>
  The amended claim C6 at the spec's scenario: a raw payload of 1000 bytes becomes a payload of
  1044 bytes that begins with \<open>RIFF\<close>.
\<close>

theorem synthesize_pcm_payload_witness:
  "3 \<le> length (stringParameter pcm_host ''text'' 0)
   \<and> length (stringParameter pcm_host ''text'' 0) \<le> 3000
   \<and> length (replicate 1000 (0 :: 8 word)) = 1000
   \<and> (\<exists>out bd w'. synthesize sample_env pcm_host 0
                      (scripted [Inr (JObj [(''body'', JBuf (replicate 1000 0))])])
                    = (Some (Inr [out]), w')
          \<and> binary out = Some [(''data'', bd)] \<and> length (data bd) = 1044
          \<and> ascii_at (data bd) 0 4 = ''RIFF'' \<and> mimeType bd = JStr ''audio/wav'')
   \<and> (\<exists>out bd w'. synthesize_v1 sample_env pcm_host 0
                      (scripted [Inr (JObj [(''body'', JBuf (replicate 1000 0))])])
                    = (Some (Inr [out]), w')
          \<and> binary out = Some [(''data'', bd)] \<and> length (data bd) = 1044
          \<and> ascii_at (data bd) 0 4 = ''RIFF'' \<and> mimeType bd = JStr ''audio/wav'')"
proof -
  let ?raw = "replicate 1000 (0 :: 8 word)"
  let ?response = "JObj [(''body'', JBuf ?raw)]"
  let ?w = "scripted [Inr ?response]"
  have t: "3 \<le> length (stringParameter pcm_host ''text'' 0)"
          "length (stringParameter pcm_host ''text'' 0) \<le> 3000"
    by (simp_all add: pcm_host_def sample_host_def lookup_or_def)
  have r: "\<forall>c. server ?w (length (calls ?w)) c = Inr ?response"
    by (simp add: scripted_def)
  have b: "bindE (getProp ?response ''body'') bufferFrom = Inr ?raw"
    by (simp add: obj_get_def)
  have f: "stringParameter pcm_host ''outputFormat'' 0 = ''pcm_s16le''"
          "stringParameter pcm_host ''binaryPropertyName'' 0 = ''data''"
    by (simp_all add: pcm_host_def sample_host_def lookup_or_def)
  from synthesize_pcm_payload [OF t r b, of sample_env] f t show ?thesis
    by auto
qed

text \<open>
  Claim C6 as stated fails for a raw payload of \<open>2^32 - 36\<close> bytes: the header cannot be
  built, and \<open>synthesize\<close> throws the range error instead of returning a payload.
\<close>

theorem synthesize_pcm_payload_counterexample:
  "stringParameter pcm_host ''outputFormat'' 0 = ''pcm_s16le''
   \<and> fst (synthesize sample_env pcm_host 0
            (scripted [Inr (JObj [(''body'', JBuf (replicate 4294967260 0))])]))
     = Some (Inl (RangeError ''ERR_OUT_OF_RANGE''))"
  by (simp add: synthesize_def pcm_host_def sample_host_def lookup_or_def Let_def
        cambAiApiRequest_reply scripted_def obj_get_def wrapPcm_def MODEL_SAMPLE_RATES_def
        generateWavHeader_def alloc_def bufWrite_def writeUIntLE_def put_bytes_def)

lemma passes_Inr [simp]: "passes (Inr x)"
  by (simp add: passes_def)

lemma passes_bindE: "passes r \<Longrightarrow> (\<And>x. passes (f x)) \<Longrightarrow> passes (bindE r f)"
  by (cases r) (simp_all add: passes_def bindE_def)

lemma passes_getProp: "passes (getProp v k)"
  by (cases v) (simp_all add: passes_def)

lemma passes_bufferFrom: "passes (bufferFrom v)"
  by (cases v) (simp_all add: passes_def)

lemma passes_writeUIntLE: "passes (writeUIntLE n v off buf)"
  by (simp add: passes_def writeUIntLE_def)

lemma passes_bufWrite: "passes (bufWrite s off buf)"
  by (simp add: passes_def bufWrite_def)

lemma passes_generateWavHeader: "passes (generateWavHeader d sr nc bps)"
  unfolding generateWavHeader_def Let_def
  by (intro passes_bindE passes_writeUIntLE passes_bufWrite passes_Inr)

lemma passes_wrapPcm: "passes (wrapPcm outputFormat sr raw)"
  unfolding wrapPcm_def
  by (auto intro!: passes_bindE passes_generateWavHeader)

lemma passed_andThen:
  assumes "passed r" and "\<And>x w. passed (f x w)"
  shows "passed (andThen r f)"
proof (cases r)
  case (Pair a w)
  show ?thesis
  proof (cases a)
    case None
    with Pair show ?thesis by (simp add: passed_def)
  next
    case (Some s)
    with Pair assms show ?thesis by (cases s) (simp_all add: passed_def)
  qed
qed

lemma passed_pureE: "passes r \<Longrightarrow> passed (pureE r w)"
  by (simp add: passed_def passes_def pureE_def split: sum.splits)

lemma passed_Inr [simp]: "passed (Some (Inr x), w)"
  by (simp add: passed_def)

lemma passed_request: "passed (await (cambAiApiRequest lib w method endpoint body qs options))"
  by (simp add: cambAiApiRequest_reply passed_def classify_def split: sum.splits)

lemma passed_request_v1: "passed (await (cambAiApiRequest_v1 lib w method endpoint body qs options))"
  by (simp add: cambAiApiRequest_v1_reply passed_def classify_def split: sum.splits)

lemma synthesize_passed:
  assumes "3 \<le> length (stringParameter this ''text'' i)"
    and "length (stringParameter this ''text'' i) \<le> 3000"
  shows "passed (synthesize lib this i w)" "passed (synthesize_v1 lib this i w)"
  using assms unfolding synthesize_def synthesize_v1_def Let_def
  by (auto simp: not_less
        intro!: passed_andThen passed_request passed_request_v1 passed_pureE passes_bindE
                passes_getProp passes_bufferFrom passes_wrapPcm)

lemma passedD: "passed r \<Longrightarrow> fst r \<noteq> Some (Inl (NodeOperationError m j))"
  by (auto simp: passed_def)

text \<open>
  Claim C7. In both revisions of \<open>synthesize\<close>: a text shorter than 3 or longer than 3000
  characters is rejected with the validation error and the world is left as it was (no
  request, no sleep); a text of 3 to 3000 characters leads to exactly one request, and
  whatever the outcome is, it is no validation error.
\<close>

theorem synthesize_validation:
  fixes this :: host and i :: nat and lib :: env and w :: world
  defines "text \<equiv> stringParameter this ''text'' i"
  defines "rejected \<equiv>
     (Some (Inl (NodeOperationError ''Text must be between 3 and 3000 characters'' i)), w)"
  shows "(length text < 3 \<or> 3000 < length text \<longrightarrow>
            synthesize lib this i w = rejected \<and> synthesize_v1 lib this i w = rejected)
       \<and> (3 \<le> length text \<and> length text \<le> 3000 \<longrightarrow>
            (\<exists>c. calls (snd (synthesize lib this i w)) = calls w @ [c])
          \<and> (\<exists>c. calls (snd (synthesize_v1 lib this i w)) = calls w @ [c])
          \<and> (\<forall>m j. fst (synthesize lib this i w) \<noteq> Some (Inl (NodeOperationError m j)))
          \<and> (\<forall>m j. fst (synthesize_v1 lib this i w) \<noteq> Some (Inl (NodeOperationError m j))))"
proof (intro conjI impI)
  assume "length text < 3 \<or> 3000 < length text"
  then show "synthesize lib this i w = rejected" "synthesize_v1 lib this i w = rejected"
    unfolding synthesize_def synthesize_v1_def Let_def rejected_def text_def by auto
next
  assume ok: "3 \<le> length text \<and> length text \<le> 3000"
  have one: "\<exists>c. calls (snd (andThen (Some r, w\<lparr>calls := calls w @ [c0]\<rparr>) f)) = calls w @ [c]"
    if "\<And>x w1. snd (f x w1) = w1" for r :: "js_error + jsval" and c0
      and f :: "jsval \<Rightarrow> world \<Rightarrow> node_output list outcome"
    using that by (cases r) simp_all
  have pure: "snd (andThen (pureE r w1) f) = w1" if "\<And>x w2. snd (f x w2) = w2"
    for r :: "js_error + 'a" and w1 and f :: "'a \<Rightarrow> world \<Rightarrow> node_output list outcome"
    using that by (cases r) simp_all
  show "\<exists>c. calls (snd (synthesize lib this i w)) = calls w @ [c]"
    using ok unfolding synthesize_def Let_def text_def
    by (simp add: cambAiApiRequest_reply not_less one pure)
  show "\<exists>c. calls (snd (synthesize_v1 lib this i w)) = calls w @ [c]"
    using ok unfolding synthesize_v1_def Let_def text_def
    by (simp add: cambAiApiRequest_v1_reply not_less one pure)
  show "\<forall>m j. fst (synthesize lib this i w) \<noteq> Some (Inl (NodeOperationError m j))"
    using synthesize_passed(1) [of this i lib w] ok passedD unfolding text_def by blast
  show "\<forall>m j. fst (synthesize_v1 lib this i w) \<noteq> Some (Inl (NodeOperationError m j))"
    using synthesize_passed(2) [of this i lib w] ok passedD unfolding text_def by blast
qed

text \<open>
  Claim C7 at the four boundary lengths: 2 and 3001 are rejected without a request, 3 and
  3000 are sent.
\<close>

theorem synthesize_validation_witness:
  "length (stringParameter (text_host (replicate 2 CHR ''a'') False) ''text'' 0) < 3
   \<and> synthesize sample_env (text_host (replicate 2 CHR ''a'') False) 0 idle_world
     = (Some (Inl (NodeOperationError ''Text must be between 3 and 3000 characters'' 0)),
        idle_world)
   \<and> 3000 < length (stringParameter (text_host (replicate 3001 CHR ''a'') False) ''text'' 0)
   \<and> synthesize sample_env (text_host (replicate 3001 CHR ''a'') False) 0 idle_world
     = (Some (Inl (NodeOperationError ''Text must be between 3 and 3000 characters'' 0)),
        idle_world)
   \<and> length (stringParameter (text_host (replicate 3 CHR ''a'') False) ''text'' 0) = 3
   \<and> (\<exists>c. calls (snd (synthesize sample_env (text_host (replicate 3 CHR ''a'') False) 0 idle_world))
           = calls idle_world @ [c])
   \<and> length (stringParameter (text_host (replicate 3000 CHR ''a'') False) ''text'' 0) = 3000
   \<and> (\<exists>c. calls (snd (synthesize sample_env (text_host (replicate 3000 CHR ''a'') False) 0
                          idle_world))
           = calls idle_world @ [c])"
proof -
  have t: "stringParameter (text_host s b) ''text'' 0 = s" for s b
    by (simp add: text_host_def sample_host_def lookup_or_def)
  from synthesize_validation [of "text_host (replicate 2 CHR ''a'') False" 0 sample_env idle_world]
    synthesize_validation [of "text_host (replicate 3001 CHR ''a'') False" 0 sample_env idle_world]
    synthesize_validation [of "text_host (replicate 3 CHR ''a'') False" 0 sample_env idle_world]
    synthesize_validation [of "text_host (replicate 3000 CHR ''a'') False" 0 sample_env idle_world]
  show ?thesis
    unfolding t by simp
qed

section \<open>Properties of translate\<close>

text \<open>
  Claim C9. The texts of \<open>translate\<close> are always an array: the parsed value when the input
  parses to an array, and the one-element array of the raw input when parsing fails or gives
  something that is no array. They are what the first call of the operation, the
  authenticated submit request to \<open>/translate\<close>, carries as \<open>texts\<close> in its body.
\<close>

theorem translate_texts_array:
  fixes this :: host and i :: nat and lib :: env
  defines "textsInput \<equiv> stringParameter this ''texts'' i"
  defines "texts \<equiv> parseTexts lib textsInput"
  shows "isArray texts
       \<and> (\<forall>parsed. JSON_parse lib textsInput = Some parsed \<and> isArray parsed \<longrightarrow> texts = parsed)
       \<and> (JSON_parse lib textsInput = None
            \<or> (\<exists>parsed. JSON_parse lib textsInput = Some parsed \<and> \<not> isArray parsed)
          \<longrightarrow> texts = JArr [JStr textsInput])
       \<and> (\<exists>requestOptions body rest.
             calls (snd (translate lib this fuel i w))
               = calls w @ HttpRequestWithAuthentication ''cambAiApi'' requestOptions # rest
           \<and> obj_get requestOptions ''url'' = JStr ''https://client.camb.ai/apis/translate''
           \<and> obj_get requestOptions ''body'' = JObj body
           \<and> obj_get body ''texts'' = texts)"
proof (intro conjI)
  show "isArray texts"
    by (simp add: texts_def parseTexts_def split: option.splits)
  show "\<forall>parsed. JSON_parse lib textsInput = Some parsed \<and> isArray parsed \<longrightarrow> texts = parsed"
    by (simp add: texts_def parseTexts_def)
  show "JSON_parse lib textsInput = None
          \<or> (\<exists>parsed. JSON_parse lib textsInput = Some parsed \<and> \<not> isArray parsed)
        \<longrightarrow> texts = JArr [JStr textsInput]"
    by (auto simp: texts_def parseTexts_def)
  let ?body0 = "[(''texts'', texts),
                 (''source_language'', JNum (numberParameter this ''sourceLanguage'' i)),
                 (''target_language'', JNum (numberParameter this ''targetLanguage'' i))]"
  let ?f = "obj_get (objectParameter this ''options'' i) ''formality''"
  let ?body = "if truthy ?f then obj_set ''formality'' ?f ?body0 else ?body0"
  have ne: "?body \<noteq> []" by simp
  have tx: "obj_get ?body ''texts'' = texts"
    by (simp add: obj_get_def)
  have "\<exists>rest. calls (snd (translate lib this fuel i w))
          = calls w @ buildRequest ''POST'' (JStr ''/translate'') ?body [] [] # rest"
    unfolding translate_def Let_def texts_def textsInput_def
    by (rule first_call) (intro grows_andThen grows_pureE grows_pollForResult grows_request grows_refl)
  then obtain rest where
    "calls (snd (translate lib this fuel i w))
       = calls w @ buildRequest ''POST'' (JStr ''/translate'') ?body [] [] # rest" ..
  then show "\<exists>requestOptions body rest.
             calls (snd (translate lib this fuel i w))
               = calls w @ HttpRequestWithAuthentication ''cambAiApi'' requestOptions # rest
           \<and> obj_get requestOptions ''url'' = JStr ''https://client.camb.ai/apis/translate''
           \<and> obj_get requestOptions ''body'' = JObj body
           \<and> obj_get body ''texts'' = texts"
    unfolding buildRequest_json_body [OF ne]
    using tx by (auto simp: obj_get_def BASE_URL_def)
qed

text \<open>
  Claim C9 at three inputs: one that parses to an array, one that parses to a number, one that
  does not parse.
\<close>

theorem translate_texts_array_witness:
  "JSON_parse sample_env ''[1, 2]'' = Some (JArr [JNum 1, JNum 2]) \<and> isArray (JArr [JNum 1, JNum 2])
   \<and> parseTexts sample_env ''[1, 2]'' = JArr [JNum 1, JNum 2]
   \<and> JSON_parse sample_env ''7'' = Some (JNum 7) \<and> \<not> isArray (JNum 7)
   \<and> parseTexts sample_env ''7'' = JArr [JStr ''7'']
   \<and> JSON_parse sample_env ''Good morning'' = None
   \<and> parseTexts sample_env ''Good morning'' = JArr [JStr ''Good morning'']"
proof -
  let ?h = "\<lambda>s. sample_host ''text'' ''translate'' [(''texts'', s)] False 1"
  have p: "stringParameter (?h s) ''texts'' 0 = s" for s
    by (simp add: sample_host_def lookup_or_def)
  have a: "JSON_parse sample_env ''[1, 2]'' = Some (JArr [JNum 1, JNum 2])"
          "JSON_parse sample_env ''7'' = Some (JNum 7)"
          "JSON_parse sample_env ''Good morning'' = None"
    by (simp_all add: sample_env_def)
  from translate_texts_array [of sample_env "?h ''[1, 2]''" 0 0 idle_world]
       translate_texts_array [of sample_env "?h ''7''" 0 0 idle_world]
       translate_texts_array [of sample_env "?h ''Good morning''" 0 0 idle_world]
  show ?thesis
    unfolding p using a by auto
qed

section \<open>Properties of createVoice\<close>

lemma createVoice_previews_complete:
  assumes "createVoice_previews lib name voiceDescription taskId runId (JArr urls) i w
             = (Some (Inr outs), w')"
    and "\<forall>n requestOptions. obj_get requestOptions ''url'' = JUndefined \<longrightarrow>
           (\<exists>e. server w n (HttpRequest requestOptions) = Inl e)"
  shows "2 \<le> length urls
       \<and> (\<exists>ro1 ro2 b1 b2 js.
             calls w' = calls w @ [HttpRequest ro1, HttpRequest ro2]
           \<and> obj_get ro1 ''url'' = urls ! 0 \<and> obj_get ro2 ''url'' = urls ! 1
           \<and> outs = [\<lparr>json = js,
                        binary = Some [(name, b1), (name @ ''_preview2'', b2)],
                        pairedItem = i\<rparr>])"
proof -
  let ?opts = "[(''encoding'', JStr ''arraybuffer''), (''returnFullResponse'', JBool True),
                (''json'', JBool False), (''baseURL'', JStr [])]"
  let ?ro = "\<lambda>url. [(''method'', JStr ''GET''), (''url'', url), (''json'', JBool False),
                     (''encoding'', JStr ''arraybuffer''), (''returnFullResponse'', JBool True)]"
  let ?u1 = "if 0 < length urls then urls ! 0 else JUndefined"
  let ?u2 = "if Suc 0 < length urls then urls ! Suc 0 else JUndefined"
  let ?w1 = "w\<lparr>calls := calls w @ [HttpRequest (?ro ?u1)]\<rparr>"
  let ?w2 = "?w1\<lparr>calls := calls ?w1 @ [HttpRequest (?ro ?u2)]\<rparr>"
  have url: "obj_get (?ro u) ''url'' = u" for u
    by (simp add: obj_get_def)
  have rej: "\<exists>e. server w n (HttpRequest (?ro JUndefined)) = Inl e" for n
    using assms(2) url by blast
  from assms(1) obtain r1 where r1: "server w (length (calls w)) (HttpRequest (?ro ?u1)) = Inr r1"
    unfolding createVoice_previews_def
    by (cases "server w (length (calls w)) (HttpRequest (?ro ?u1))")
       (simp_all add: cambAiApiRequest_reply buildRequest_download)
  from assms(1) r1 obtain b1 where b1: "bindE (getProp r1 ''body'') bufferFrom = Inr b1"
    unfolding createVoice_previews_def
    by (cases "bindE (getProp r1 ''body'') bufferFrom")
       (simp_all add: cambAiApiRequest_reply buildRequest_download)
  from assms(1) r1 b1 obtain r2
    where r2: "server w (Suc (length (calls w))) (HttpRequest (?ro ?u2)) = Inr r2"
    unfolding createVoice_previews_def
    by (cases "server w (Suc (length (calls w))) (HttpRequest (?ro ?u2))")
       (simp_all add: cambAiApiRequest_reply buildRequest_download)
  from assms(1) r1 b1 r2 obtain b2 where b2: "bindE (getProp r2 ''body'') bufferFrom = Inr b2"
    unfolding createVoice_previews_def
    by (cases "bindE (getProp r2 ''body'') bufferFrom")
       (simp_all add: cambAiApiRequest_reply buildRequest_download)
  have len: "2 \<le> length urls"
  proof (rule ccontr)
    assume "\<not> 2 \<le> length urls"
    then have "?u2 = JUndefined" by simp
    with r2 rej [of "Suc (length (calls w))"] show False by simp
  qed
  from assms(1) r1 b1 r2 b2
  have res: "outs = [\<lparr>json = JObj [(''taskId'', taskId), (''runId'', runId),
                                   (''voiceDescription'', JStr voiceDescription),
                                   (''previewUrls'', JArr urls)],
                      binary = Some [(name, prepareBinaryData b1
                                        (JStr (''voice_preview_1_'' @ ToString runId @ ''.mp3''))
                                        (JStr ''audio/mpeg'')),
                                     (name @ ''_preview2'', prepareBinaryData b2
                                        (JStr (''voice_preview_2_'' @ ToString runId @ ''.mp3''))
                                        (JStr ''audio/mpeg''))],
                      pairedItem = i\<rparr>]" and w': "w' = ?w2"
    unfolding createVoice_previews_def
    by (simp_all add: cambAiApiRequest_reply buildRequest_download Let_def)
  from len have u: "?u1 = urls ! 0" "?u2 = urls ! 1"
    by auto
  show ?thesis
    using len res url [of "urls ! 0"] url [of "urls ! 1"] unfolding w' u
    by (intro conjI exI [of _ "?ro (urls ! 0)"] exI [of _ "?ro (urls ! 1)"]) auto
qed

lemma createVoice_complete:
  assumes "createVoice lib this fuel i w = (Some (Inr outs), w')"
  shows "\<exists>taskId runId voiceResult previews w1 w2.
           cambAiApiRequest lib w1 ''GET'' (JStr (''/text-to-voice-result/'' @ ToString runId))
             [] [] [] = (Inr voiceResult, w2)
         \<and> getProp voiceResult ''previews'' = Inr previews
         \<and> createVoice_previews lib (stringParameter this ''binaryPropertyName'' i)
               (stringParameter this ''voiceDescription'' i) taskId runId previews i w2
             = (Some (Inr outs), w')"
proof -
  have long: "\<not> length (stringParameter this ''voiceDescription'' i) < 100"
    using assms unfolding createVoice_def Let_def by (auto split: if_splits)
  from assms long obtain response w1 taskId w2 result w3 runId w4 voiceResult w5 previews w6
    where fetch: "await (cambAiApiRequest lib w4 ''GET''
                    (JStr (''/text-to-voice-result/'' @ ToString runId)) [] [] [])
                  = (Some (Inr voiceResult), w5)"
      and prev: "pureE (getProp voiceResult ''previews'') w5 = (Some (Inr previews), w6)"
      and rest: "createVoice_previews lib (stringParameter this ''binaryPropertyName'' i)
               (stringParameter this ''voiceDescription'' i) taskId runId previews i w6
             = (Some (Inr outs), w')"
    unfolding createVoice_def Let_def
    by (simp only: if_False) (blast dest!: andThen_eq_Inr)
  from fetch have "cambAiApiRequest lib w4 ''GET''
      (JStr (''/text-to-voice-result/'' @ ToString runId)) [] [] [] = (Inr voiceResult, w5)"
    by (cases "cambAiApiRequest lib w4 ''GET''
      (JStr (''/text-to-voice-result/'' @ ToString runId)) [] [] []") simp
  moreover from prev have "getProp voiceResult ''previews'' = Inr previews" "w6 = w5"
    by (simp_all add: pureE_def)
  ultimately show ?thesis
    using rest by blast
qed

lemma createVoice_reaches_previews:
  assumes "100 \<le> length (stringParameter this ''voiceDescription'' i)"
    and "cambAiApiRequest lib w0 ''POST'' (JStr ''/text-to-voice'')
           [(''text'', JStr (stringParameter this ''text'' i)),
            (''voice_description'', JStr (stringParameter this ''voiceDescription'' i))] [] []
         = (Inr response, w1)"
    and "getProp response ''task_id'' = Inr taskId"
    and "pollForResult lib fuel w1 (JStr (''/text-to-voice/'' @ ToString taskId)) 3000
         = (Some (Inr result), w2)"
    and "getProp result ''run_id'' = Inr runId"
    and "cambAiApiRequest lib w2 ''GET'' (JStr (''/text-to-voice-result/'' @ ToString runId))
           [] [] [] = (Inr voiceResult, w3)"
    and "getProp voiceResult ''previews'' = Inr previews"
  shows "createVoice lib this fuel i w0 =
           createVoice_previews lib (stringParameter this ''binaryPropertyName'' i)
             (stringParameter this ''voiceDescription'' i) taskId runId previews i w3"
  using assms unfolding createVoice_def Let_def
  by simp

lemma createVoice_previews_run:
  fixes urls :: "jsval list"
  defines "download \<equiv> \<lambda>url. HttpRequest
      [(''method'', JStr ''GET''), (''url'', url), (''json'', JBool False),
       (''encoding'', JStr ''arraybuffer''), (''returnFullResponse'', JBool True)]"
  assumes "2 \<le> length urls"
    and "server w (length (calls w)) (download (urls ! 0)) = Inr response1"
    and "bindE (getProp response1 ''body'') bufferFrom = Inr buffer1"
    and "server w (Suc (length (calls w))) (download (urls ! 1)) = Inr response2"
    and "bindE (getProp response2 ''body'') bufferFrom = Inr buffer2"
  shows "createVoice_previews lib name voiceDescription taskId runId (JArr urls) i w =
           (Some (Inr [\<lparr>json = JObj [(''taskId'', taskId), (''runId'', runId),
                                      (''voiceDescription'', JStr voiceDescription),
                                      (''previewUrls'', JArr urls)],
                         binary = Some
                           [(name, \<lparr>data = buffer1,
                                     fileName = JStr (''voice_preview_1_'' @ ToString runId @ ''.mp3''),
                                     mimeType = JStr ''audio/mpeg''\<rparr>),
                            (name @ ''_preview2'',
                               \<lparr>data = buffer2,
                                 fileName = JStr (''voice_preview_2_'' @ ToString runId @ ''.mp3''),
                                 mimeType = JStr ''audio/mpeg''\<rparr>)],
                         pairedItem = i\<rparr>]),
            w\<lparr>calls := calls w @ [download (urls ! 0), download (urls ! 1)]\<rparr>)"
proof -
  have l: "urls \<noteq> []" "Suc 0 < length urls"
    using assms(2) by auto
  show ?thesis
    using assms(3-) l unfolding createVoice_previews_def download_def
    by (simp add: cambAiApiRequest_reply buildRequest_download prepareBinaryData_def Let_def)
qed

lemma ends_andThen:
  assumes "fst r \<noteq> None" and "\<And>x w. fst (f x w) \<noteq> None"
  shows "fst (andThen r f) \<noteq> None"
proof (cases r)
  case (Pair a w1)
  show ?thesis
  proof (cases a)
    case None
    with Pair assms(1) show ?thesis by simp
  next
    case (Some s)
    with Pair assms(2) show ?thesis by (cases s) simp_all
  qed
qed

lemma createVoice_previews_ends:
  "fst (createVoice_previews lib name voiceDescription taskId runId previews i w) \<noteq> None"
  unfolding createVoice_previews_def Let_def
  by (intro ends_andThen) (simp_all add: await_def pureE_def)

lemma createVoice_previews_short:
  assumes "length urls < 2"
    and "\<forall>n requestOptions. obj_get requestOptions ''url'' = JUndefined \<longrightarrow>
           (\<exists>e. server w n (HttpRequest requestOptions) = Inl e)"
  shows "\<exists>e w'. createVoice_previews lib name voiceDescription taskId runId (JArr urls) i w
                  = (Some (Inl e), w')"
proof -
  obtain r w' where r: "createVoice_previews lib name voiceDescription taskId runId (JArr urls) i w
                          = (r, w')"
    by (cases "createVoice_previews lib name voiceDescription taskId runId (JArr urls) i w")
  have "r \<noteq> None"
    using createVoice_previews_ends [of lib name voiceDescription taskId runId "JArr urls" i w] r
    by simp
  then obtain s where s: "r = Some s" by blast
  show ?thesis
  proof (cases s)
    case (Inl e)
    with r s show ?thesis by blast
  next
    case (Inr outs)
    with createVoice_previews_complete [OF _ assms(2), of lib name voiceDescription taskId runId urls
           i outs w'] r s assms(1)
    show ?thesis by simp
  qed
qed


lemma createVoice_previews_attempt:
  "\<exists>rest.
     calls (snd (createVoice_previews lib name voiceDescription taskId runId (JArr urls) i w))
       = calls w @ HttpRequest
           [(''method'', JStr ''GET''), (''url'', if urls = [] then JUndefined else urls ! 0),
            (''json'', JBool False), (''encoding'', JStr ''arraybuffer''),
            (''returnFullResponse'', JBool True)] # rest"
proof -
  let ?u = "if 0 < length urls then urls ! 0 else JUndefined"
  have "\<exists>rest. calls (snd (createVoice_previews lib name voiceDescription taskId runId (JArr urls) i w))
          = calls w @ buildRequest ''GET'' ?u [] []
              [(''encoding'', JStr ''arraybuffer''), (''returnFullResponse'', JBool True),
               (''json'', JBool False), (''baseURL'', JStr [])] # rest"
    unfolding createVoice_previews_def Let_def getIndex.simps andThen_pureE_Inr
    by (rule first_call) (intro grows_andThen grows_pureE grows_request grows_refl)
  then show ?thesis
    unfolding buildRequest_download by auto
qed

text \<open>
  Claim C10. Let \<open>createVoice\<close> pass its validation, let the submit request, the poller and
  the result fetch succeed one after the other, and let the result carry the list \<open>urls\<close>
  as its \<open>previews\<close>. When the list has at least two entries and the downloads of entry 0
  and entry 1 succeed, the operation makes exactly these two further calls, unauthenticated,
  in this order, and returns one record whose binary properties are exactly two: the first
  download under the binary property name, the second under that name followed by
  \<open>_preview2\<close>. When the list has fewer than two entries, and the HTTP helper rejects a
  request that has no URL, the operation ends with an error; there is no guard, so the
  first download has been attempted all the same, with no URL at all when the list is empty.
\<close>

theorem createVoice_two_previews:
  fixes this :: host and i :: nat and urls :: "jsval list"
  defines "name \<equiv> stringParameter this ''binaryPropertyName'' i"
    and "voiceDescription \<equiv> stringParameter this ''voiceDescription'' i"
    and "download \<equiv> \<lambda>url. HttpRequest
      [(''method'', JStr ''GET''), (''url'', url), (''json'', JBool False),
       (''encoding'', JStr ''arraybuffer''), (''returnFullResponse'', JBool True)]"
  assumes "100 \<le> length voiceDescription"
    and "cambAiApiRequest lib w0 ''POST'' (JStr ''/text-to-voice'')
           [(''text'', JStr (stringParameter this ''text'' i)),
            (''voice_description'', JStr voiceDescription)] [] []
         = (Inr response, w1)"
    and "getProp response ''task_id'' = Inr taskId"
    and "pollForResult lib fuel w1 (JStr (''/text-to-voice/'' @ ToString taskId)) 3000
         = (Some (Inr result), w2)"
    and "getProp result ''run_id'' = Inr runId"
    and "cambAiApiRequest lib w2 ''GET'' (JStr (''/text-to-voice-result/'' @ ToString runId))
           [] [] [] = (Inr voiceResult, w3)"
    and "getProp voiceResult ''previews'' = Inr (JArr urls)"
  shows "(2 \<le> length urls
          \<and> server w3 (length (calls w3)) (download (urls ! 0)) = Inr response1
          \<and> bindE (getProp response1 ''body'') bufferFrom = Inr buffer1
          \<and> server w3 (Suc (length (calls w3))) (download (urls ! 1)) = Inr response2
          \<and> bindE (getProp response2 ''body'') bufferFrom = Inr buffer2
          \<longrightarrow> createVoice lib this fuel i w0 =
                (Some (Inr [\<lparr>json = JObj [(''taskId'', taskId), (''runId'', runId),
                                           (''voiceDescription'', JStr voiceDescription),
                                           (''previewUrls'', JArr urls)],
                              binary = Some
                                [(name,
                                    \<lparr>data = buffer1,
                                      fileName = JStr (''voice_preview_1_'' @ ToString runId @ ''.mp3''),
                                      mimeType = JStr ''audio/mpeg''\<rparr>),
                                 (name @ ''_preview2'',
                                    \<lparr>data = buffer2,
                                      fileName = JStr (''voice_preview_2_'' @ ToString runId @ ''.mp3''),
                                      mimeType = JStr ''audio/mpeg''\<rparr>)],
                              pairedItem = i\<rparr>]),
                 w3\<lparr>calls := calls w3 @ [download (urls ! 0), download (urls ! 1)]\<rparr>))
       \<and> (length urls < 2
          \<and> (\<forall>n requestOptions. obj_get requestOptions ''url'' = JUndefined \<longrightarrow>
                 (\<exists>e. server w3 n (HttpRequest requestOptions) = Inl e))
          \<longrightarrow> (\<exists>e w' rest.
                  createVoice lib this fuel i w0 = (Some (Inl e), w')
                \<and> calls w' = calls w3 @ download (if urls = [] then JUndefined else urls ! 0) # rest))"
proof -
  have reach: "createVoice lib this fuel i w0 =
                 createVoice_previews lib name voiceDescription taskId runId (JArr urls) i w3"
    unfolding name_def voiceDescription_def
    using assms(4-) unfolding voiceDescription_def
    by (rule createVoice_reaches_previews)
  show ?thesis
  proof (intro conjI impI)
    assume "2 \<le> length urls
          \<and> server w3 (length (calls w3)) (download (urls ! 0)) = Inr response1
          \<and> bindE (getProp response1 ''body'') bufferFrom = Inr buffer1
          \<and> server w3 (Suc (length (calls w3))) (download (urls ! 1)) = Inr response2
          \<and> bindE (getProp response2 ''body'') bufferFrom = Inr buffer2"
    then show "createVoice lib this fuel i w0 =
                (Some (Inr [\<lparr>json = JObj [(''taskId'', taskId), (''runId'', runId),
                                           (''voiceDescription'', JStr voiceDescription),
                                           (''previewUrls'', JArr urls)],
                              binary = Some
                                [(name,
                                    \<lparr>data = buffer1,
                                      fileName = JStr (''voice_preview_1_'' @ ToString runId @ ''.mp3''),
                                      mimeType = JStr ''audio/mpeg''\<rparr>),
                                 (name @ ''_preview2'',
                                    \<lparr>data = buffer2,
                                      fileName = JStr (''voice_preview_2_'' @ ToString runId @ ''.mp3''),
                                      mimeType = JStr ''audio/mpeg''\<rparr>)],
                              pairedItem = i\<rparr>]),
                 w3\<lparr>calls := calls w3 @ [download (urls ! 0), download (urls ! 1)]\<rparr>)"
      unfolding reach download_def
      by (elim conjE) (rule createVoice_previews_run; assumption)
  next
    assume a: "length urls < 2
          \<and> (\<forall>n requestOptions. obj_get requestOptions ''url'' = JUndefined \<longrightarrow>
                 (\<exists>e. server w3 n (HttpRequest requestOptions) = Inl e))"
    then obtain e w' where
      r: "createVoice_previews lib name voiceDescription taskId runId (JArr urls) i w3
            = (Some (Inl e), w')"
      using createVoice_previews_short [of urls w3 lib name voiceDescription taskId runId i]
      by blast
    obtain rest where
      "calls w' = calls w3 @ download (if urls = [] then JUndefined else urls ! 0) # rest"
      using createVoice_previews_attempt [of lib name voiceDescription taskId runId urls i w3] r
      unfolding download_def by auto
    with r show "\<exists>e w' rest.
                  createVoice lib this fuel i w0 = (Some (Inl e), w')
                \<and> calls w' = calls w3 @ download (if urls = [] then JUndefined else urls ! 0) # rest"
      unfolding reach by blast
  qed
qed


text \<open>
  Claim C10 at two concrete runs. With three previews in the result, the first two are
  downloaded and the third is not; with a single preview, the operation ends with an error.
\<close>

theorem createVoice_two_previews_witness:
  "100 \<le> length (stringParameter voice_host ''voiceDescription'' 0)
   \<and> length three_urls = 3
   \<and> fst (createVoice sample_env voice_host (Suc 0) 0 (voice_world three_urls))
     = Some (Inr [\<lparr>json = JObj [(''taskId'', JStr ''t1''), (''runId'', JStr ''r7''),
                                  (''voiceDescription'', JStr (replicate 100 CHR ''a'')),
                                  (''previewUrls'', JArr three_urls)],
                     binary = Some
                       [(''data'', \<lparr>data = [1, 2, 3], fileName = JStr ''voice_preview_1_r7.mp3'',
                                    mimeType = JStr ''audio/mpeg''\<rparr>),
                        (''data_preview2'',
                           \<lparr>data = [4, 5], fileName = JStr ''voice_preview_2_r7.mp3'',
                             mimeType = JStr ''audio/mpeg''\<rparr>)],
                     pairedItem = 0\<rparr>])
   \<and> map (\<lambda>c. obj_get (requestOptions_of c) ''url'')
       (calls (snd (createVoice sample_env voice_host (Suc 0) 0 (voice_world three_urls))))
     = [JStr ''https://client.camb.ai/apis/text-to-voice'',
        JStr ''https://client.camb.ai/apis/text-to-voice/t1'',
        JStr ''https://client.camb.ai/apis/text-to-voice-result/r7'',
        JStr ''https://cdn.example/p1.mp3'', JStr ''https://cdn.example/p2.mp3'']
   \<and> (\<exists>e. fst (createVoice sample_env voice_host (Suc 0) 0
                  (voice_world [JStr ''https://cdn.example/p1.mp3''])) = Some (Inl e))"
proof -
  let ?vd = "stringParameter voice_host ''voiceDescription'' 0"
  let ?body = "[(''text'', JStr (stringParameter voice_host ''text'' 0)),
                (''voice_description'', JStr ?vd)]"
  let ?c1 = "buildRequest ''POST'' (JStr ''/text-to-voice'') ?body [] []"
  let ?c2 = "buildRequest ''GET'' (JStr ''/text-to-voice/t1'') [] [] []"
  let ?c3 = "buildRequest ''GET'' (JStr ''/text-to-voice-result/r7'') [] [] []"
  let ?response = "JObj [(''task_id'', JStr ''t1'')]"
  let ?result = "JObj [(''status'', JStr ''SUCCESS''), (''run_id'', JStr ''r7'')]"
  have vd: "100 \<le> length ?vd" and vd': "?vd = replicate 100 CHR ''a''"
    and nm: "stringParameter voice_host ''binaryPropertyName'' 0 = ''data''"
    by (simp_all add: voice_host_def sample_host_def lookup_or_def)
  have u: "obj_get (requestOptions_of ?c1) ''url'' = JStr ''https://client.camb.ai/apis/text-to-voice''"
          "obj_get (requestOptions_of ?c2) ''url'' = JStr ''https://client.camb.ai/apis/text-to-voice/t1''"
          "obj_get (requestOptions_of ?c3) ''url''
             = JStr ''https://client.camb.ai/apis/text-to-voice-result/r7''"
    by (simp_all add: buildRequest_def obj_get_def obj_delete_def obj_assign_def BASE_URL_def Let_def)
  have run: "cambAiApiRequest sample_env (voice_world urls) ''POST'' (JStr ''/text-to-voice'') ?body [] []
               = (Inr ?response, (voice_world urls)\<lparr>calls := [?c1]\<rparr>)"
            "pollForResult sample_env (Suc 0) ((voice_world urls)\<lparr>calls := [?c1]\<rparr>)
               (JStr (''/text-to-voice/'' @ ToString (JStr ''t1''))) 3000
               = (Some (Inr ?result), (voice_world urls)\<lparr>calls := [?c1, ?c2]\<rparr>)"
            "cambAiApiRequest sample_env ((voice_world urls)\<lparr>calls := [?c1, ?c2]\<rparr>) ''GET''
               (JStr (''/text-to-voice-result/'' @ ToString (JStr ''r7''))) [] [] []
               = (Inr (JObj [(''previews'', JArr urls)]), (voice_world urls)\<lparr>calls := [?c1, ?c2, ?c3]\<rparr>)"
    for urls
    using u
    by (simp_all add: cambAiApiRequest_reply poll_try_def voice_world_def strict_world_def
          obj_get_def js_or_def toUpperCase_def upper_char_def Let_def)
  have g: "getProp ?response ''task_id'' = Inr (JStr ''t1'')"
          "getProp ?result ''run_id'' = Inr (JStr ''r7'')"
          "getProp (JObj [(''previews'', JArr urls)]) ''previews'' = Inr (JArr urls)" for urls
    by (simp_all add: obj_get_def)
  let ?w3 = "(voice_world three_urls)\<lparr>calls := [?c1, ?c2, ?c3]\<rparr>"
  let ?dl = "\<lambda>url. HttpRequest
      [(''method'', JStr ''GET''), (''url'', url), (''json'', JBool False),
       (''encoding'', JStr ''arraybuffer''), (''returnFullResponse'', JBool True)]"
  have d: "2 \<le> length three_urls
          \<and> server ?w3 (length (calls ?w3)) (?dl (three_urls ! 0)) = Inr (JObj [(''body'', JBuf [1, 2, 3])])
          \<and> bindE (getProp (JObj [(''body'', JBuf [1, 2, 3])]) ''body'') bufferFrom = Inr [1, 2, 3]
          \<and> server ?w3 (Suc (length (calls ?w3))) (?dl (three_urls ! 1)) = Inr (JObj [(''body'', JBuf [4, 5])])
          \<and> bindE (getProp (JObj [(''body'', JBuf [4, 5])]) ''body'') bufferFrom = Inr [4, 5]"
    by (simp add: three_urls_def voice_world_def strict_world_def obj_get_def)
  let ?s3 = "(voice_world [JStr ''https://cdn.example/p1.mp3''])\<lparr>calls := [?c1, ?c2, ?c3]\<rparr>"
  have rej: "length [JStr ''https://cdn.example/p1.mp3''] < 2
          \<and> (\<forall>n requestOptions. obj_get requestOptions ''url'' = JUndefined \<longrightarrow>
                 (\<exists>e. server ?s3 n (HttpRequest requestOptions) = Inl e))"
    by (simp add: voice_world_def strict_world_def)
  from createVoice_two_previews [OF vd run(1) g(1) run(2) g(2) run(3) g(3),
         THEN conjunct1, rule_format, OF d]
  have a: "createVoice sample_env voice_host (Suc 0) 0 (voice_world three_urls) =
             (Some (Inr [\<lparr>json = JObj [(''taskId'', JStr ''t1''), (''runId'', JStr ''r7''),
                                  (''voiceDescription'', JStr (replicate 100 CHR ''a'')),
                                  (''previewUrls'', JArr three_urls)],
                     binary = Some
                       [(''data'', \<lparr>data = [1, 2, 3], fileName = JStr ''voice_preview_1_r7.mp3'',
                                    mimeType = JStr ''audio/mpeg''\<rparr>),
                        (''data_preview2'',
                           \<lparr>data = [4, 5], fileName = JStr ''voice_preview_2_r7.mp3'',
                             mimeType = JStr ''audio/mpeg''\<rparr>)],
                     pairedItem = 0\<rparr>]),
              ?w3\<lparr>calls := calls ?w3 @ [?dl (three_urls ! 0), ?dl (three_urls ! 1)]\<rparr>)"
    by (simp add: vd' nm)
  from createVoice_two_previews [OF vd run(1) g(1) run(2) g(2) run(3) g(3),
         THEN conjunct2, rule_format, OF rej]
  have b: "\<exists>e. fst (createVoice sample_env voice_host (Suc 0) 0
                  (voice_world [JStr ''https://cdn.example/p1.mp3''])) = Some (Inl e)"
    by auto
  have l: "length three_urls = 3"
    by (simp add: three_urls_def)
  show ?thesis
    using a b vd l u by (simp add: obj_get_def three_urls_def)
qed

section \<open>Properties of the batch loop\<close>

lemma paired_Inl [simp]: "paired i (Some (Inl e), w)"
  by (simp add: paired_def)

lemma paired_one [simp]: "paired i (Some (Inr [out]), w) = (pairedItem out = i)"
  by (simp add: paired_def)

lemma paired_none [simp]: "paired i (Some (Inr []), w)"
  by (simp add: paired_def)

lemma paired_andThen:
  assumes "\<And>x w. paired i (f x w)"
  shows "paired i (andThen r f)"
proof (cases r)
  case (Pair a w1)
  show ?thesis
  proof (cases a)
    case None
    with Pair show ?thesis by (simp add: paired_def)
  next
    case (Some s)
    with Pair assms show ?thesis by (cases s) simp_all
  qed
qed

lemma paired_createVoice_previews:
  "paired i (createVoice_previews lib name voiceDescription taskId runId previews i w)"
  unfolding createVoice_previews_def Let_def
  by (intro paired_andThen) simp

lemma paired_processItem: "paired i (processItem lib this fuel i w)"
proof -
  have "paired i (synthesize lib this i w)"
    unfolding synthesize_def Let_def by (auto intro!: paired_andThen)
  moreover have "paired i (translatedTts lib this fuel i w)"
    unfolding translatedTts_def Let_def by (intro paired_andThen) simp
  moreover have "paired i (generateSound lib this fuel i w)"
    unfolding generateSound_def Let_def by (intro paired_andThen) simp
  moreover have "paired i (separateAudio lib this fuel i w)"
    unfolding separateAudio_def Let_def by (intro paired_andThen) simp
  moreover have "paired i (transcribe lib this fuel i w)"
    unfolding transcribe_def Let_def by (intro paired_andThen) simp
  moreover have "paired i (translate lib this fuel i w)"
    unfolding translate_def Let_def by (intro paired_andThen) simp
  moreover have "paired i (createVoice lib this fuel i w)"
    unfolding createVoice_def Let_def
    by (auto intro!: paired_andThen paired_createVoice_previews)
  moreover have "paired i (cloneVoice lib this i w)"
    unfolding cloneVoice_def Let_def by (intro paired_andThen) simp
  moreover have "paired i (listVoices lib this i w)"
    unfolding listVoices_def
    by (intro paired_andThen) (simp add: paired_def split: jsval.splits)
  ultimately show ?thesis
    unfolding processItem_def Let_def by simp
qed

lemma paired_processItem_v1: "paired i (processItem_v1 lib this fuel i w)"
proof -
  have "paired i (synthesize_v1 lib this i w)"
    unfolding synthesize_v1_def Let_def by (auto intro!: paired_andThen)
  then show ?thesis
    unfolding processItem_v1_def Let_def by simp
qed

lemma pairedD: "paired i r \<Longrightarrow> r = (Some (Inr outs), w') \<Longrightarrow> \<forall>out \<in> set outs. pairedItem out = i"
  by (simp add: paired_def)

declare executeFrom.simps [simp del]

lemma sorted_constant: "\<forall>x \<in> set xs. f x = (c :: nat) \<Longrightarrow> sorted (map f xs)"
  by (induction xs) auto

lemma executeFrom_outputs:
  assumes "\<And>j w. paired j (body lib this fuel j w)"
    and "executeFrom body lib this fuel i returnData w = (Some (Inr outs), w')"
  shows "\<exists>new. outs = returnData @ new
             \<and> (\<forall>out \<in> set new. i \<le> pairedItem out \<and> pairedItem out < numItems this)
             \<and> sorted (map pairedItem new)"
  using assms
proof (induction body lib this fuel i returnData w rule: executeFrom.induct)
  case (1 body lib this fuel i returnData w)
  show ?case
  proof (cases "i < numItems this")
    case False
    with "1.prems"(2) show ?thesis
      by (simp add: executeFrom.simps [of body lib this fuel i])
  next
    case True
    obtain r w1 where b: "body lib this fuel i w = (r, w1)"
      by (cases "body lib this fuel i w")
    show ?thesis
    proof (cases r)
      case None
      with True b "1.prems"(2) show ?thesis
        by (simp add: executeFrom.simps [of body lib this fuel i])
    next
      case (Some s)
      show ?thesis
      proof (cases s)
        case (Inr pushed)
        have p: "\<forall>out \<in> set pushed. pairedItem out = i"
          using "1.prems"(1) [of i w] b Some Inr by (simp add: paired_def)
        have e: "executeFrom body lib this fuel (i + 1) (returnData @ pushed) w1 = (Some (Inr outs), w')"
          using True b Some Inr "1.prems"(2)
          by (simp add: executeFrom.simps [of body lib this fuel i])
        from "1.IH"(2) [OF True b [symmetric] Some Inr "1.prems"(1) e]
        obtain new where n: "outs = (returnData @ pushed) @ new"
          "\<forall>out \<in> set new. i + 1 \<le> pairedItem out \<and> pairedItem out < numItems this"
          "sorted (map pairedItem new)"
          by blast
        have sp: "sorted (map pairedItem pushed)"
          using p by (rule sorted_constant)
        show ?thesis
          using n p True sp
          by (intro exI [of _ "pushed @ new"]) (auto simp: sorted_append)
      next
        case (Inl error)
        have c: "continueOnFail this"
          using True b Some Inl "1.prems"(2)
          by (auto simp: executeFrom.simps [of body lib this fuel i] split: if_splits)
        have e: "executeFrom body lib this fuel (i + 1) (returnData @ [errorRecord lib error i]) w1
                   = (Some (Inr outs), w')"
          using True b Some Inl c "1.prems"(2)
          by (simp add: executeFrom.simps [of body lib this fuel i])
        from "1.IH"(1) [OF True b [symmetric] Some Inl c "1.prems"(1) e]
        obtain new where n: "outs = (returnData @ [errorRecord lib error i]) @ new"
          "\<forall>out \<in> set new. i + 1 \<le> pairedItem out \<and> pairedItem out < numItems this"
          "sorted (map pairedItem new)"
          by blast
        show ?thesis
          using n True
          by (intro exI [of _ "errorRecord lib error i # new"])
             (auto simp: errorRecord_def)
      qed
    qed
  qed
qed

lemma executeFrom_continues:
  assumes "continueOnFail this"
  shows "fst (executeFrom body lib this fuel i returnData w) \<noteq> Some (Inl e)"
  using assms
proof (induction body lib this fuel i returnData w rule: executeFrom.induct)
  case (1 body lib this fuel i returnData w)
  show ?case
  proof (cases "i < numItems this")
    case False
    then show ?thesis
      by (simp add: executeFrom.simps [of body lib this fuel i])
  next
    case True
    obtain r w1 where b: "body lib this fuel i w = (r, w1)"
      by (cases "body lib this fuel i w")
    show ?thesis
    proof (cases r)
      case None
      with True b show ?thesis
        by (simp add: executeFrom.simps [of body lib this fuel i])
    next
      case (Some s)
      show ?thesis
      proof (cases s)
        case (Inr pushed)
        from "1.IH"(2) [OF True b [symmetric] Some Inr "1.prems"] True b Some Inr show ?thesis
          by (simp add: executeFrom.simps [of body lib this fuel i])
      next
        case (Inl error)
        from "1.IH"(1) [OF True b [symmetric] Some Inl "1.prems" "1.prems"] True b Some Inl "1.prems"
        show ?thesis
          by (simp add: executeFrom.simps [of body lib this fuel i])
      qed
    qed
  qed
qed

lemma execute_eq:
  "execute lib this fuel w = (Some (Inr res), w') \<longleftrightarrow>
     (\<exists>outs. res = [outs] \<and> executeFrom processItem lib this fuel 0 [] w = (Some (Inr outs), w'))"
  "fst (execute lib this fuel w) = Some (Inl e) \<longleftrightarrow>
     fst (executeFrom processItem lib this fuel 0 [] w) = Some (Inl e)"
proof -
  obtain a w1 where r: "executeFrom processItem lib this fuel 0 [] w = (a, w1)"
    by (cases "executeFrom processItem lib this fuel 0 [] w")
  show "execute lib this fuel w = (Some (Inr res), w') \<longleftrightarrow>
     (\<exists>outs. res = [outs] \<and> executeFrom processItem lib this fuel 0 [] w = (Some (Inr outs), w'))"
    unfolding execute_def r
    by (cases a; cases "the a") auto
  show "fst (execute lib this fuel w) = Some (Inl e) \<longleftrightarrow>
     fst (executeFrom processItem lib this fuel 0 [] w) = Some (Inl e)"
    unfolding execute_def r
    by (cases a; cases "the a") auto
qed

lemma execute_v1_eq:
  "execute_v1 lib this fuel w = (Some (Inr res), w') \<longleftrightarrow>
     (\<exists>outs. res = [outs] \<and> executeFrom processItem_v1 lib this fuel 0 [] w = (Some (Inr outs), w'))"
  "fst (execute_v1 lib this fuel w) = Some (Inl e) \<longleftrightarrow>
     fst (executeFrom processItem_v1 lib this fuel 0 [] w) = Some (Inl e)"
proof -
  obtain a w1 where r: "executeFrom processItem_v1 lib this fuel 0 [] w = (a, w1)"
    by (cases "executeFrom processItem_v1 lib this fuel 0 [] w")
  show "execute_v1 lib this fuel w = (Some (Inr res), w') \<longleftrightarrow>
     (\<exists>outs. res = [outs] \<and> executeFrom processItem_v1 lib this fuel 0 [] w = (Some (Inr outs), w'))"
    unfolding execute_v1_def r
    by (cases a; cases "the a") auto
  show "fst (execute_v1 lib this fuel w) = Some (Inl e) \<longleftrightarrow>
     fst (executeFrom processItem_v1 lib this fuel 0 [] w) = Some (Inl e)"
    unfolding execute_v1_def r
    by (cases a; cases "the a") auto
qed

lemma executeFrom_step:
  assumes "i < numItems this"
  shows "body lib this fuel i w = (Some (Inr pushed), w') \<Longrightarrow>
           executeFrom body lib this fuel i returnData w =
             executeFrom body lib this fuel (i + 1) (returnData @ pushed) w'"
    and "body lib this fuel i w = (Some (Inl error), w') \<Longrightarrow> continueOnFail this \<Longrightarrow>
           executeFrom body lib this fuel i returnData w =
             executeFrom body lib this fuel (i + 1) (returnData @ [errorRecord lib error i]) w'"
    and "body lib this fuel i w = (Some (Inl error), w') \<Longrightarrow> \<not> continueOnFail this \<Longrightarrow>
           executeFrom body lib this fuel i returnData w = (Some (Inl error), w')"
  using assms by (simp_all add: executeFrom.simps [of body lib this fuel i])

lemma executeFrom_run:
  fixes ws :: "nat \<Rightarrow> world" and rs :: "nat \<Rightarrow> js_error + node_output list"
  assumes "\<forall>j. i \<le> j \<and> j < numItems this \<longrightarrow>
             body lib this fuel j (ws j) = (Some (rs j), ws (Suc j))"
    and "continueOnFail this \<or> (\<forall>j. i \<le> j \<and> j < numItems this \<longrightarrow> (\<exists>pushed. rs j = Inr pushed))"
    and "i \<le> numItems this"
  shows "executeFrom body lib this fuel i returnData (ws i) =
           (Some (Inr (returnData @
              concat (map (\<lambda>j. case rs j of Inr pushed \<Rightarrow> pushed
                                | Inl error \<Rightarrow> [errorRecord lib error j])
                        [i..<numItems this]))),
            ws (numItems this))"
  using assms
proof (induction "numItems this - i" arbitrary: i returnData)
  case 0
  then have "\<not> i < numItems this" "i = numItems this" by simp_all
  then show ?case
    by (subst executeFrom.simps) simp
next
  case (Suc d)
  then have lt: "i < numItems this" by simp
  have b: "body lib this fuel i (ws i) = (Some (rs i), ws (Suc i))"
    using Suc.prems(1) lt by simp
  have d: "d = numItems this - Suc i"
    using Suc.hyps(2) by simp
  have p1: "\<forall>j. Suc i \<le> j \<and> j < numItems this \<longrightarrow>
             body lib this fuel j (ws j) = (Some (rs j), ws (Suc j))"
    using Suc.prems(1) by simp
  have p2: "continueOnFail this \<or> (\<forall>j. Suc i \<le> j \<and> j < numItems this \<longrightarrow> (\<exists>pushed. rs j = Inr pushed))"
    using Suc.prems(2) by auto
  have p3: "Suc i \<le> numItems this" using lt by simp
  note IH = Suc.hyps(1) [OF d p1 p2 p3]
  have up: "[i..<numItems this] = i # [Suc i..<numItems this]"
    using lt by (simp add: upt_conv_Cons)
  show ?case
  proof (cases "rs i")
    case (Inr pushed)
    show ?thesis
      using lt b Inr IH [of "returnData @ pushed"]
      by (simp add: executeFrom.simps [of body lib this fuel i] up)
  next
    case (Inl error)
    then have c: "continueOnFail this"
      using Suc.prems(2) lt by auto
    show ?thesis
      using lt b Inl c IH [of "returnData @ [errorRecord lib error i]"]
      by (simp add: executeFrom.simps [of body lib this fuel i] up)
  qed
qed

lemma executeFrom_abort:
  fixes ws :: "nat \<Rightarrow> world" and rs :: "nat \<Rightarrow> js_error + node_output list"
  assumes "\<forall>j. i \<le> j \<and> j \<le> k \<longrightarrow> body lib this fuel j (ws j) = (Some (rs j), ws (Suc j))"
    and "\<forall>j. i \<le> j \<and> j < k \<longrightarrow> (\<exists>pushed. rs j = Inr pushed)"
    and "rs k = Inl error" and "\<not> continueOnFail this"
    and "i \<le> k" and "k < numItems this"
  shows "executeFrom body lib this fuel i returnData (ws i) = (Some (Inl error), ws (Suc k))"
  using assms
proof (induction "k - i" arbitrary: i returnData)
  case 0
  then have "i = k" by simp
  then show ?case
    using "0.prems" by (subst executeFrom.simps) simp
next
  case (Suc d)
  then have lt: "i < k" by simp
  obtain pushed where r: "rs i = Inr pushed"
    using Suc.prems(2) lt by auto
  have b: "body lib this fuel i (ws i) = (Some (rs i), ws (Suc i))"
    using Suc.prems(1) lt by simp
  have d: "d = k - Suc i" using Suc.hyps(2) by simp
  have p1: "\<forall>j. Suc i \<le> j \<and> j \<le> k \<longrightarrow> body lib this fuel j (ws j) = (Some (rs j), ws (Suc j))"
    using Suc.prems(1) by simp
  have p2: "\<forall>j. Suc i \<le> j \<and> j < k \<longrightarrow> (\<exists>pushed. rs j = Inr pushed)"
    using Suc.prems(2) by simp
  have p5: "Suc i \<le> k" using lt by simp
  note IH = Suc.hyps(1) [OF d p1 p2 Suc.prems(3) Suc.prems(4) p5 Suc.prems(6)]
  show ?case
    using lt Suc.prems(6) b r IH [of "returnData @ pushed"]
    by (simp add: executeFrom.simps [of body lib this fuel i])
qed

text \<open>
  Claim C8. In both revisions of the node, let the batch be run from the world \<open>ws 0\<close>,
  item \<open>i\<close> being processed in the world \<open>ws i\<close> with the result \<open>rs i\<close> (the records it
  pushes, or the error it throws) and leaving the world \<open>ws (i + 1)\<close>. Then:
  \<^item> the records an item pushes all carry \<open>pairedItem\<close> \<open>i\<close>;
  \<^item> when the node continues on failure (or no item fails), \<open>execute\<close> returns, in the
    order of the items, what every item pushed and, for every item that threw, one record
    whose \<open>json\<close> is the error message alone, with \<open>pairedItem\<close> \<open>i\<close>: every item of the
    batch has been processed;
  \<^item> when the node does not continue on failure and item \<open>k\<close> is the first to throw,
    \<open>execute\<close> throws that very error, in the world item \<open>k\<close> left: no later item is
    processed.
\<close>

theorem execute_paired_items:
  fixes lib :: env and this :: host and fuel :: nat
    and ws :: "nat \<Rightarrow> world" and rs :: "nat \<Rightarrow> js_error + node_output list"
  defines "records \<equiv> \<lambda>i. (case rs i of
        Inr pushed \<Rightarrow> pushed
      | Inl error \<Rightarrow> [\<lparr>json = JObj [(''error'', message lib error)], binary = None,
                        pairedItem = i\<rparr>])"
  defines "trace \<equiv> \<lambda>body m. \<forall>i<m. body lib this fuel i (ws i) = (Some (rs i), ws (Suc i))"
  defines "batch \<equiv> \<lambda>body run.
      (\<forall>i w pushed w'. body lib this fuel i w = (Some (Inr pushed), w') \<longrightarrow>
          (\<forall>out \<in> set pushed. pairedItem out = i))
    \<and> (trace body (numItems this)
        \<and> (continueOnFail this \<or> (\<forall>i<numItems this. \<exists>pushed. rs i = Inr pushed)) \<longrightarrow>
          run lib this fuel (ws 0) =
            (Some (Inr [concat (map records [0..<numItems this])]), ws (numItems this)))
    \<and> (\<forall>k error. k < numItems this \<and> trace body (Suc k) \<and> (\<forall>i<k. \<exists>pushed. rs i = Inr pushed)
          \<and> rs k = Inl error \<and> \<not> continueOnFail this \<longrightarrow>
          run lib this fuel (ws 0) = (Some (Inl error), ws (Suc k)))"
  shows "batch processItem execute \<and> batch processItem_v1 execute_v1"
proof -
  have rec: "records = (\<lambda>j. case rs j of Inr pushed \<Rightarrow> pushed
                                | Inl error \<Rightarrow> [errorRecord lib error j])"
    unfolding records_def errorRecord_def ..
  have run: "andThen (executeFrom body lib this fuel 0 [] (ws 0))
               (\<lambda>returnData w. (Some (Inr [returnData]), w))
             = (Some (Inr [concat (map records [0..<numItems this])]), ws (numItems this))"
    if "trace body (numItems this)"
      and "continueOnFail this \<or> (\<forall>i<numItems this. \<exists>pushed. rs i = Inr pushed)"
    for body
    using executeFrom_run [of 0 this body lib fuel ws rs "[]"] that
    by (simp add: trace_def rec)
  have abort: "andThen (executeFrom body lib this fuel 0 [] (ws 0))
               (\<lambda>returnData w. (Some (Inr [returnData]), w))
             = (Some (Inl error), ws (Suc k))"
    if "k < numItems this" "trace body (Suc k)" "\<forall>i<k. \<exists>pushed. rs i = Inr pushed"
       "rs k = Inl error" "\<not> continueOnFail this"
    for body k error
    using executeFrom_abort [of 0 k body lib this fuel ws rs error "[]"] that
    by (simp add: trace_def less_Suc_eq_le)
  have "batch processItem execute"
    unfolding batch_def execute_def
    using pairedD [OF paired_processItem] run [of processItem] abort [of _ processItem]
    by blast
  moreover have "batch processItem_v1 execute_v1"
    unfolding batch_def execute_v1_def
    using pairedD [OF paired_processItem_v1] run [of processItem_v1] abort [of _ processItem_v1]
    by blast
  ultimately show ?thesis ..
qed


text \<open>
  Claim C8 at a batch of two items of which the first fails validation. Continuing on
  failure, \<open>execute\<close> returns the error record paired with item 0 followed by the record of
  item 1, after the one request of item 1; otherwise it throws the validation error of
  item 0 and makes no request.
\<close>

theorem execute_paired_items_witness:
  "numItems (batch_host True) = 2 \<and> continueOnFail (batch_host True)
   \<and> \<not> continueOnFail (batch_host False)
   \<and> processItem sample_env (batch_host True) 0 0 batch_world
     = (Some (Inl (NodeOperationError ''Text must be between 3 and 3000 characters'' 0)),
        batch_world)
   \<and> message sample_env (NodeOperationError ''Text must be between 3 and 3000 characters'' 0)
     = JStr ''Text must be between 3 and 3000 characters''
   \<and> fst (execute sample_env (batch_host True) 0 batch_world)
     = Some (Inr [[\<lparr>json = JObj [(''error'', JStr ''Text must be between 3 and 3000 characters'')],
                     binary = None, pairedItem = 0\<rparr>,
                   \<lparr>json = JObj [(''text'', JStr ''Hello''), (''voiceId'', JNum 1),
                                  (''language'', JStr []), (''model'', JStr []),
                                  (''outputFormat'', JStr ''wav''),
                                  (''fileName'', JStr ''tts_output.wav''), (''size'', JNum 3)],
                     binary = Some [(''data'', \<lparr>data = [1, 2, 3],
                                                  fileName = JStr ''tts_output.wav'',
                                                  mimeType = JStr ''audio/wav''\<rparr>)],
                     pairedItem = 1\<rparr>]])
   \<and> length (calls (snd (execute sample_env (batch_host True) 0 batch_world))) = 1
   \<and> execute sample_env (batch_host False) 0 batch_world
     = (Some (Inl (NodeOperationError ''Text must be between 3 and 3000 characters'' 0)),
        batch_world)"
proof -
  let ?e = "NodeOperationError ''Text must be between 3 and 3000 characters'' 0"
  let ?ok = "\<lparr>json = JObj [(''text'', JStr ''Hello''), (''voiceId'', JNum 1),
                            (''language'', JStr []), (''model'', JStr []),
                            (''outputFormat'', JStr ''wav''),
                            (''fileName'', JStr ''tts_output.wav''), (''size'', JNum 3)],
               binary = Some [(''data'', prepareBinaryData [1, 2, 3] (JStr ''tts_output.wav'')
                                           (JStr ''audio/wav''))],
               pairedItem = 1\<rparr>"
  let ?w1 = "snd (processItem sample_env (batch_host True) 0 1 batch_world)"
  let ?ws = "\<lambda>i :: nat. if i < 2 then batch_world else ?w1"
  let ?rs = "\<lambda>i :: nat. if i = 0 then Inl ?e else Inr [?ok]"
  have n: "numItems (batch_host b) = 2" "continueOnFail (batch_host b) = b" for b
    by (simp_all add: batch_host_def)
  have p0: "processItem sample_env (batch_host b) 0 0 batch_world = (Some (Inl ?e), batch_world)"
    for b
    by (simp add: processItem_def synthesize_def batch_host_def Let_def)
  have p1: "fst (processItem sample_env (batch_host True) 0 1 batch_world) = Some (Inr [?ok])"
    by (simp add: processItem_def synthesize_def batch_host_def batch_world_def scripted_def
          cambAiApiRequest_reply await_def pureE_def obj_get_def wrapPcm_def lookup_or_def
          MODEL_SAMPLE_RATES_def mimeTypes_def extensions_def js_or_def Let_def)
  have c1: "length (calls ?w1) = 1"
    by (simp add: processItem_def synthesize_def batch_host_def batch_world_def scripted_def
          cambAiApiRequest_reply await_def pureE_def obj_get_def wrapPcm_def lookup_or_def
          MODEL_SAMPLE_RATES_def mimeTypes_def extensions_def js_or_def Let_def)
  have t: "\<forall>i<numItems (batch_host True).
             processItem sample_env (batch_host True) 0 i (?ws i) = (Some (?rs i), ?ws (Suc i))"
    using p0 [of True] p1
    by (auto simp: n less_Suc_eq numeral_2_eq_2 prod_eq_iff)
  have t': "\<forall>i<Suc 0.
             processItem sample_env (batch_host False) 0 i (?ws i) = (Some (?rs i), ?ws (Suc i))"
    using p0 [of False] by simp
  have m: "message sample_env ?e = JStr ''Text must be between 3 and 3000 characters''"
    by (simp add: sample_env_def)
  from execute_paired_items [of sample_env "batch_host True" 0 ?ws ?rs,
         THEN conjunct1, THEN conjunct2, THEN conjunct1, rule_format, OF conjI, OF t]
  have a: "execute sample_env (batch_host True) 0 batch_world =
             (Some (Inr [[errorRecord sample_env ?e 0, ?ok]]), ?w1)"
    by (simp add: n errorRecord_def numeral_2_eq_2)
  from execute_paired_items [of sample_env "batch_host False" 0 ?ws ?rs,
         THEN conjunct1, THEN conjunct2, THEN conjunct2, rule_format, of 0 ?e] t'
  have b: "execute sample_env (batch_host False) 0 batch_world = (Some (Inl ?e), batch_world)"
    by (simp add: n)
  show ?thesis
    using a b c1 n p0 [of True] m
    by (simp add: errorRecord_def prepareBinaryData_def)
qed

end
